theory Spec2Isabelle
  imports Complex_Main "HOL-Library.Sublist"
begin

section \<open>Strings\<close>

text \<open>
  Python's \<open>str\<close> is a sequence of code points. Text is modelled as a list of 8-bit
  characters, read as the code points 0..255; the character classes below are those of
  Python 3 on that range.
\<close>

fun str_nat :: "nat \<Rightarrow> string" where
  "str_nat n = (if n < 10 then [char_of (48 + n)]
                else str_nat (n div 10) @ [char_of (48 + n mod 10)])"

declare str_nat.simps [simp del]

definition str_int :: "int \<Rightarrow> string" where
  \<comment> \<open>\<open>str(i)\<close>, also what an f-string prints for an integer\<close>
  "str_int i = (if i < 0 then CHR ''-'' # str_nat (nat (- i)) else str_nat (nat i))"

definition is_space :: "char \<Rightarrow> bool" where
  \<comment> \<open>the whitespace of \<open>str.split()\<close>, \<open>str.strip()\<close> and the regular expression class \<open>\s\<close>\<close>
  "is_space c = (let n = (of_char c :: nat) in
     (9 \<le> n \<and> n \<le> 13) \<or> (28 \<le> n \<and> n \<le> 32) \<or> n = 133 \<or> n = 160)"

definition is_word :: "char \<Rightarrow> bool" where
  \<comment> \<open>the regular expression class \<open>\w\<close>: alphanumeric code points and the underscore\<close>
  "is_word c = (let n = (of_char c :: nat) in
     (48 \<le> n \<and> n \<le> 57) \<or> (65 \<le> n \<and> n \<le> 90) \<or> n = 95 \<or> (97 \<le> n \<and> n \<le> 122) \<or>
     n = 170 \<or> n = 178 \<or> n = 179 \<or> n = 181 \<or> n = 185 \<or> n = 186 \<or>
     (188 \<le> n \<and> n \<le> 190) \<or> (192 \<le> n \<and> n \<le> 214) \<or> (216 \<le> n \<and> n \<le> 246) \<or> 248 \<le> n)"

definition in_range :: "char \<Rightarrow> char \<Rightarrow> char \<Rightarrow> bool" where
  \<comment> \<open>membership in a character range \<open>lo-hi\<close> of a regular expression class\<close>
  "in_range lo hi c = ((of_char lo :: nat) \<le> of_char c \<and> (of_char c :: nat) \<le> of_char hi)"

definition lower_char :: "char \<Rightarrow> char" where
  "lower_char c = (let n = (of_char c :: nat) in
     if (65 \<le> n \<and> n \<le> 90) \<or> (192 \<le> n \<and> n \<le> 214) \<or> (216 \<le> n \<and> n \<le> 222)
     then char_of (n + 32) else c)"

definition lower :: "string \<Rightarrow> string" where
  \<comment> \<open>\<open>str.lower()\<close>\<close>
  "lower s = map lower_char s"

definition startswith :: "string \<Rightarrow> string \<Rightarrow> bool" where
  \<comment> \<open>\<open>s.startswith(p)\<close>\<close>
  "startswith s p = (take (length p) s = p)"

fun str_contains :: "string \<Rightarrow> string \<Rightarrow> bool" where
  \<comment> \<open>\<open>sub in s\<close> on strings\<close>
  "str_contains sub [] = (sub = [])"
| "str_contains sub (c # cs) = (startswith (c # cs) sub \<or> str_contains sub cs)"

fun split_first :: "string \<Rightarrow> string \<Rightarrow> (string \<times> string) option" where
  \<comment> \<open>\<open>s.split(sep, 1)\<close> for a non-empty separator: the text before and after the first
      occurrence, None where Python returns the one-element list \<open>[s]\<close>\<close>
  "split_first sep [] = None"
| "split_first sep (c # cs) =
     (if startswith (c # cs) sep then Some ([], drop (length sep) (c # cs))
      else map_option (\<lambda>(a, b). (c # a, b)) (split_first sep cs))"

definition strip_where :: "(char \<Rightarrow> bool) \<Rightarrow> string \<Rightarrow> string" where
  "strip_where p s = rev (dropWhile p (rev (dropWhile p s)))"

definition strip :: "string \<Rightarrow> string" where
  \<comment> \<open>\<open>s.strip()\<close>\<close>
  "strip s = strip_where is_space s"

definition strip_chars :: "string \<Rightarrow> string \<Rightarrow> string" where
  \<comment> \<open>\<open>s.strip(chars)\<close>\<close>
  "strip_chars chars s = strip_where (\<lambda>c. c \<in> set chars) s"

definition lstrip_chars :: "string \<Rightarrow> string \<Rightarrow> string" where
  \<comment> \<open>\<open>s.lstrip(chars)\<close>\<close>
  "lstrip_chars chars s = dropWhile (\<lambda>c. c \<in> set chars) s"

fun split_acc :: "string \<Rightarrow> string \<Rightarrow> string list" where
  "split_acc w [] = (if w = [] then [] else [w])"
| "split_acc w (c # cs) =
     (if is_space c then (if w = [] then split_acc [] cs else w # split_acc [] cs)
      else split_acc (w @ [c]) cs)"

definition split_ws :: "string \<Rightarrow> string list" where
  \<comment> \<open>\<open>s.split()\<close>: the maximal runs of non-whitespace characters\<close>
  "split_ws s = split_acc [] s"

fun join :: "string \<Rightarrow> string list \<Rightarrow> string" where
  \<comment> \<open>\<open>sep.join(xs)\<close>\<close>
  "join sep [] = []"
| "join sep [x] = x"
| "join sep (x # y # ys) = x @ sep @ join sep (y # ys)"

section \<open>Regular expressions\<close>

text \<open>
  The two patterns of the handler are sequences of word boundaries, literal characters and
  greedy repetitions of a character class, some of them captured as a group. The matcher
  below is the backtracking matcher of Python's \<open>re\<close> on such sequences: a repetition
  first takes the longest run of its class and gives characters back one at a time while
  the rest of the pattern fails. A match returns the captured groups and the number of
  characters consumed.
\<close>

datatype re_item =
    WordBoundary  \<comment> \<open>\<open>\b\<close>\<close>
  | Lit char
  | Rep bool nat "char \<Rightarrow> bool"
      \<comment> \<open>captured or not, the minimal count (1 for \<open>+\<close>, 0 for \<open>*\<close>), the class\<close>

definition at_word_boundary :: "char option \<Rightarrow> string \<Rightarrow> bool" where
  \<comment> \<open>the character before the position (None at the start of the text) and the text from
      the position on\<close>
  "at_word_boundary prev s =
     ((case prev of None \<Rightarrow> False | Some p \<Rightarrow> is_word p) \<noteq>
      (case s of [] \<Rightarrow> False | c # _ \<Rightarrow> is_word c))"

primrec try_counts :: "(nat \<Rightarrow> 'a option) \<Rightarrow> nat \<Rightarrow> nat \<Rightarrow> 'a option" where
  \<comment> \<open>the first success among the counts \<open>n, n - 1, ..., lo\<close>\<close>
  "try_counts f lo 0 = (if lo = 0 then f 0 else None)"
| "try_counts f lo (Suc n) =
     (if Suc n < lo then None
      else case f (Suc n) of Some r \<Rightarrow> Some r | None \<Rightarrow> try_counts f lo n)"

fun match_items :: "re_item list \<Rightarrow> char option \<Rightarrow> string \<Rightarrow> (string list \<times> nat) option" where
  "match_items [] prev s = Some ([], 0)"
| "match_items (WordBoundary # its) prev s =
     (if at_word_boundary prev s then match_items its prev s else None)"
| "match_items (Lit c # its) prev s =
     (case s of [] \<Rightarrow> None
      | d # ds \<Rightarrow> if d = c then map_option (\<lambda>(gs, k). (gs, Suc k)) (match_items its (Some d) ds)
                 else None)"
| "match_items (Rep cap lo cls # its) prev s =
     try_counts
       (\<lambda>n. map_option (\<lambda>(gs, k). (if cap then take n s # gs else gs, n + k))
              (match_items its (if n = 0 then prev else Some (s ! (n - 1))) (drop n s)))
       lo (length (takeWhile cls s))"

function findall_from :: "re_item list \<Rightarrow> char option \<Rightarrow> string \<Rightarrow> string list list" where
  \<comment> \<open>the scan of \<open>re.findall\<close>: leftmost matches, none overlapping; after an empty match
      the scan moves on by one character\<close>
  "findall_from its prev s =
     (case match_items its prev s of
        Some (gs, n) \<Rightarrow>
          if 0 < n \<and> n \<le> length s then gs # findall_from its (Some (s ! (n - 1))) (drop n s)
          else (case s of [] \<Rightarrow> [gs] | c # cs \<Rightarrow> gs # findall_from its (Some c) cs)
      | None \<Rightarrow> (case s of [] \<Rightarrow> [] | c # cs \<Rightarrow> findall_from its (Some c) cs))"
  by pat_completeness auto
termination
  by (relation "measure (\<lambda>(its, prev, s). length s)") auto

declare findall_from.simps [simp del]

definition findall :: "re_item list \<Rightarrow> string \<Rightarrow> string list list" where
  \<comment> \<open>\<open>re.findall(pattern, text)\<close>: the groups of each match, in order\<close>
  "findall its s = findall_from its None s"

section \<open>Specifier extraction (a2a_handler.py)\<close>

definition name_char :: "char \<Rightarrow> bool" where
  \<comment> \<open>\<open>[a-zA-Z0-9_-]\<close>\<close>
  "name_char c = (in_range CHR ''a'' CHR ''z'' c \<or> in_range CHR ''A'' CHR ''Z'' c \<or>
                  in_range CHR ''0'' CHR ''9'' c \<or> c = CHR ''_'' \<or> c = CHR ''-'')"

definition python_pattern :: "re_item list" where
  \<comment> \<open>\<open>\b([a-zA-Z0-9_-]+)\s*([=<>~!]+)\s*([0-9.]+)\b\<close>\<close>
  "python_pattern =
     [WordBoundary, Rep True 1 name_char, Rep False 0 is_space,
      Rep True 1 (\<lambda>c. c \<in> set ''=<>~!''), Rep False 0 is_space,
      Rep True 1 (\<lambda>c. in_range CHR ''0'' CHR ''9'' c \<or> c = CHR ''.''), WordBoundary]"

definition npm_pattern :: "re_item list" where
  \<comment> \<open>\<open>\b([a-zA-Z0-9_-]+)@([0-9.^~]+)\b\<close>\<close>
  "npm_pattern =
     [WordBoundary, Rep True 1 name_char, Lit CHR ''@'',
      Rep True 1 (\<lambda>c. in_range CHR ''0'' CHR ''9'' c \<or> c \<in> set ''.^~''), WordBoundary]"

definition version_ops :: "string list" where
  "version_ops = [''=='', ''>='', ''<='', ''>'', ''<'', ''~='']"

fun fallback_scan :: "string list \<Rightarrow> string list \<Rightarrow> string list" where
  \<comment> \<open>the second loop of \<open>_extract_python_packages\<close>, over the whitespace-delimited words\<close>
  "fallback_scan packages [] = packages"
| "fallback_scan packages (word # ws) =
     (let word = strip_chars '','' word in
      if list_ex (\<lambda>op. str_contains op word) version_ops \<and> word \<notin> set packages
      then fallback_scan (packages @ [word]) ws
      else fallback_scan packages ws)"

definition extract_python_packages :: "string \<Rightarrow> string list" where
  "extract_python_packages text =
     (let packages = map concat (findall python_pattern text)
      in fallback_scan packages (split_ws text))"

definition dict_set :: "'k \<Rightarrow> 'v \<Rightarrow> ('k \<times> 'v) list \<Rightarrow> ('k \<times> 'v) list" where
  \<comment> \<open>\<open>d[k] = v\<close> on a dict, kept as an association list in insertion order: a new key goes
      to the end, a present key keeps its place\<close>
  "dict_set k v d = (if k \<in> fst ` set d then map (\<lambda>(k', v'). if k' = k then (k', v) else (k', v')) d
                     else d @ [(k, v)])"

fun store_match :: "(string \<times> string) list \<Rightarrow> string list \<Rightarrow> (string \<times> string) list" where
  \<comment> \<open>\<open>pkg_name, version = match; dependencies[pkg_name] = version\<close>\<close>
  "store_match d [pkg_name, version] = dict_set pkg_name version d"
| "store_match d _ = d"

definition extract_npm_packages :: "string \<Rightarrow> (string \<times> string) list" where
  "extract_npm_packages text = foldl store_match [] (findall npm_pattern text)"

section \<open>Health scorer (main_a2a.py)\<close>

definition calculate_health_score :: "bool \<Rightarrow> int \<Rightarrow> bool \<Rightarrow> int" where
  "calculate_health_score is_outdated vuln_count is_deprecated =
     (let score = 100;
          score = (if is_outdated then score - 20 else score);
          score = (if vuln_count > 0 then score - min 50 (vuln_count * 15) else score);
          score = (if is_deprecated then score - 30 else score)
      in max 0 score)"

definition get_recommendation :: "int \<Rightarrow> bool \<Rightarrow> int \<Rightarrow> bool \<Rightarrow> string" where
  "get_recommendation health_score is_outdated vuln_count is_deprecated =
     (if health_score \<ge> 80 then ''Package is healthy!''
      else if is_deprecated then ''Package is deprecated. Consider finding an alternative.''
      else if vuln_count > 0 then
        ''Update immediately! '' @ str_int vuln_count @ '' security vulnerability/ies found.''
      else if is_outdated then ''Update to the latest version when possible.''
      else ''Review package health metrics.'')"

section \<open>External services\<close>

text \<open>
  The registry and advisory lookups are HTTP calls. Each is a parameter of the model:
  \<open>pypi_latest\<close> and \<open>npm_latest\<close> give the latest version when the registry answers 200
  with a readable document and None for every other outcome (another status, an exception),
  \<open>osv_query\<close> gives the advisories built from the answer for a package name and an
  ecosystem label, the empty list on failure.
\<close>

record vulnerability =
  vuln_id :: string
  vuln_summary :: string
  vuln_severity :: string
  vuln_published :: string

record services =
  pypi_latest :: "string \<Rightarrow> string option"
  npm_latest :: "string \<Rightarrow> string option"
  osv_query :: "string \<Rightarrow> string \<Rightarrow> vulnerability list"

record registry_info =
  ri_latest_version :: "string option"
  ri_is_outdated :: bool
  ri_deprecated :: bool

definition truthy_str :: "string option \<Rightarrow> bool" where
  \<comment> \<open>the truth value of an \<open>Optional[str]\<close>: neither None nor empty\<close>
  "truthy_str s = (case s of None \<Rightarrow> False | Some t \<Rightarrow> t \<noteq> [])"

definition registry_answer :: "string option \<Rightarrow> string option \<Rightarrow> registry_info" where
  \<comment> \<open>the common body of \<open>check_pypi_package\<close> and \<open>check_npm_package\<close>; \<open>is_outdated\<close> is
      the truth value of \<open>current_version and current_version != latest_version\<close>\<close>
  "registry_answer latest current_version =
     (case latest of
        Some latest_version \<Rightarrow>
          \<lparr>ri_latest_version = Some latest_version,
           ri_is_outdated = (truthy_str current_version \<and> current_version \<noteq> Some latest_version),
           ri_deprecated = False\<rparr>
      | None \<Rightarrow> \<lparr>ri_latest_version = None, ri_is_outdated = False, ri_deprecated = False\<rparr>)"

definition check_pypi_package :: "services \<Rightarrow> string \<Rightarrow> string option \<Rightarrow> registry_info" where
  "check_pypi_package sv package_name current_version =
     registry_answer (pypi_latest sv package_name) current_version"

definition check_npm_package :: "services \<Rightarrow> string \<Rightarrow> string option \<Rightarrow> registry_info" where
  "check_npm_package sv package_name current_version =
     registry_answer (npm_latest sv package_name) current_version"

definition check_vulnerabilities_osv :: "services \<Rightarrow> string \<Rightarrow> string \<Rightarrow> vulnerability list" where
  "check_vulnerabilities_osv sv package_name ecosystem =
     osv_query sv package_name (if ecosystem = ''python'' then ''PyPI'' else ''npm'')"

section \<open>Analysis pipeline (main_a2a.py)\<close>

record package_dependency =
  pd_name :: string
  pd_version :: "string option"

record package_report =
  pr_name :: string
  pr_current_version :: "string option"
  pr_latest_version :: "string option"
  pr_is_outdated :: bool
  pr_has_vulnerabilities :: bool
  pr_vulnerability_count :: int
  pr_is_deprecated :: bool
  pr_health_score :: int
  pr_recommendation :: string
  pr_vulnerabilities :: "vulnerability list"

record aggregate =
  total_packages :: int
  outdated_count :: int
  vulnerable_count :: int
  deprecated_count :: int
  overall_health_score :: int
  ag_packages :: "package_report list"

text \<open>
  The aggregate that the pipeline returns is a dict: the empty dict \<open>{}\<close> is None here, a
  dict with the six keys is Some.
\<close>

fun parse_spec :: "string list \<Rightarrow> string \<Rightarrow> package_dependency" where
  \<comment> \<open>the \<open>for op in [...]\<close> loop with its \<open>else\<close>: the first operator of the list that
      occurs in the text splits it at its first occurrence\<close>
  "parse_spec [] pkg_str = \<lparr>pd_name = pkg_str, pd_version = None\<rparr>"
| "parse_spec (op # ops) pkg_str =
     (if str_contains op pkg_str then
        (case split_first op pkg_str of
           Some (name, version) \<Rightarrow> \<lparr>pd_name = strip name, pd_version = Some (strip version)\<rparr>
         | None \<Rightarrow> parse_spec ops pkg_str)
      else parse_spec ops pkg_str)"

fun parse_packages :: "string list \<Rightarrow> package_dependency list" where
  "parse_packages [] = []"
| "parse_packages (pkg_str # rest) =
     (let pkg_str = strip pkg_str in
      if pkg_str = [] \<or> startswith pkg_str ''#'' then parse_packages rest
      else parse_spec version_ops pkg_str # parse_packages rest)"

fun analyze_loop ::
  "(string \<Rightarrow> string option \<Rightarrow> registry_info) \<Rightarrow> (string \<Rightarrow> vulnerability list) \<Rightarrow>
   package_dependency list \<Rightarrow> package_report list \<times> int \<times> int \<times> int \<Rightarrow>
   package_report list \<times> int \<times> int \<times> int" where
  \<comment> \<open>the \<open>for pkg in ...\<close> loop, the same in \<open>analyze_python\<close> and \<open>analyze_npm\<close>; the
      state is the result list and the three counters\<close>
  "analyze_loop check vulns [] acc = acc"
| "analyze_loop check vulns (pkg # pkgs) (results, n_outdated, n_vulnerable, n_deprecated) =
     (let info = check (pd_name pkg) (pd_version pkg);
          found = vulns (pd_name pkg);
          outdated = ri_is_outdated info;
          has_vulns = (length found > 0);
          deprecated = ri_deprecated info;
          score = calculate_health_score outdated (int (length found)) deprecated;
          advice = get_recommendation score outdated (int (length found)) deprecated
      in analyze_loop check vulns pkgs
           (results @
              [\<lparr>pr_name = pd_name pkg, pr_current_version = pd_version pkg,
                pr_latest_version = ri_latest_version info, pr_is_outdated = outdated,
                pr_has_vulnerabilities = has_vulns,
                pr_vulnerability_count = int (length found), pr_is_deprecated = deprecated,
                pr_health_score = score, pr_recommendation = advice,
                pr_vulnerabilities = found\<rparr>],
            if outdated then n_outdated + 1 else n_outdated,
            if has_vulns then n_vulnerable + 1 else n_vulnerable,
            if deprecated then n_deprecated + 1 else n_deprecated))"

fun build_aggregate :: "package_report list \<times> int \<times> int \<times> int \<Rightarrow> aggregate" where
  "build_aggregate (results, n_outdated, n_vulnerable, n_deprecated) =
     \<lparr>total_packages = int (length results),
      outdated_count = n_outdated,
      vulnerable_count = n_vulnerable,
      deprecated_count = n_deprecated,
      overall_health_score =
        (if results \<noteq> [] then sum_list (map pr_health_score results) div int (length results)
         else 0),
      ag_packages = results\<rparr>"

definition analyze_python :: "services \<Rightarrow> string list \<Rightarrow> aggregate option" where
  "analyze_python sv packages =
     (let parsed_packages = parse_packages packages in
      if parsed_packages = [] then None
      else Some (build_aggregate
             (analyze_loop (check_pypi_package sv)
                (\<lambda>name. check_vulnerabilities_osv sv name ''python'') parsed_packages
                ([], 0, 0, 0))))"

definition npm_dependencies :: "(string \<times> string) list \<Rightarrow> package_dependency list" where
  \<comment> \<open>the first loop of \<open>analyze_npm\<close>\<close>
  "npm_dependencies dependencies =
     map (\<lambda>(name, version).
            \<lparr>pd_name = name, pd_version = Some (lstrip_chars ''^~>=<'' version)\<rparr>) dependencies"

definition analyze_npm :: "services \<Rightarrow> (string \<times> string) list \<Rightarrow> aggregate option" where
  "analyze_npm sv dependencies =
     (if dependencies = [] then None
      else Some (build_aggregate
             (analyze_loop (check_npm_package sv)
                (\<lambda>name. check_vulnerabilities_osv sv name ''npm'')
                (npm_dependencies dependencies) ([], 0, 0, 0))))"

section \<open>Report formatter (a2a_handler.py)\<close>

text \<open>
  The glyphs of the report lie outside the code points 0..255; each is written here as the
  bytes of its UTF-8 encoding.
\<close>

definition nl :: string where "nl = [CHR 0x0A]"
definition dq :: string where "dq = [CHR 0x22]"
definition sq :: string where "sq = [CHR 0x27]"
definition glyph_ok :: string where "glyph_ok = [CHR 0xE2, CHR 0x9C, CHR 0x85]"
definition glyph_warn :: string where
  "glyph_warn = [CHR 0xE2, CHR 0x9A, CHR 0xA0, CHR 0xEF, CHR 0xB8, CHR 0x8F]"
definition glyph_bad :: string where "glyph_bad = [CHR 0xE2, CHR 0x9D, CHR 0x8C]"
definition glyph_bulb :: string where "glyph_bulb = [CHR 0xF0, CHR 0x9F, CHR 0x92, CHR 0xA1]"
definition glyph_box :: string where "glyph_box = [CHR 0xF0, CHR 0x9F, CHR 0x93, CHR 0xA6]"

definition opt_str :: "string option \<Rightarrow> string" where
  \<comment> \<open>what an f-string prints for an \<open>Optional[str]\<close>\<close>
  "opt_str s = (case s of None \<Rightarrow> ''None'' | Some t \<Rightarrow> t)"

definition status_glyph :: "int \<Rightarrow> string" where
  "status_glyph score =
     (if score \<ge> 80 then glyph_ok else if score \<ge> 60 then glyph_warn else glyph_bad)"

definition format_package :: "package_report \<Rightarrow> string" where
  \<comment> \<open>the body of the \<open>for pkg in packages\<close> loop\<close>
  "format_package pkg =
     status_glyph (pr_health_score pkg) @ '' **'' @ pr_name pkg @ ''** ('' @
       opt_str (pr_current_version pkg) @ '')'' @ nl @
     ''   - Latest: '' @ opt_str (pr_latest_version pkg) @ nl @
     ''   - Health: '' @ str_int (pr_health_score pkg) @ ''/100'' @ nl @
     (if pr_vulnerability_count pkg > 0
      then ''   - '' @ glyph_warn @ '' '' @ str_int (pr_vulnerability_count pkg) @
           '' vulnerability/ies found'' @ nl
      else []) @
     (if pr_recommendation pkg \<noteq> []
      then ''   - '' @ glyph_bulb @ '' '' @ pr_recommendation pkg @ nl
      else []) @
     nl"

definition format_analysis_result :: "aggregate option \<Rightarrow> string \<Rightarrow> string" where
  "format_analysis_result result ecosystem =
     (case result of
        None \<Rightarrow> ''No '' @ ecosystem @ '' packages were analyzed.''
      | Some r \<Rightarrow>
          ''## '' @ ecosystem @ '' Package Health Report '' @
            status_glyph (overall_health_score r) @ nl @ nl @
          ''**Overall Health Score:** '' @ str_int (overall_health_score r) @ ''/100'' @ nl @
          ''**Total Packages:** '' @ str_int (total_packages r) @ nl @
          ''**Outdated:** '' @ str_int (outdated_count r) @ nl @
          ''**With Vulnerabilities:** '' @ str_int (vulnerable_count r) @ nl @ nl @
          (if ag_packages r \<noteq> []
           then ''### Package Details:'' @ nl @ nl @ concat (map format_package (ag_packages r))
           else []))"

definition get_help_message :: string where
  "get_help_message =
     nl @
     ''## Package Health Monitor Agent '' @ glyph_box @ nl @
     nl @
     ''I can help you check the health of your Python and npm packages!'' @ nl @
     nl @
     ''### Commands:'' @ nl @
     nl @
     ''**Analyze Python packages:**'' @ nl @
     ''- '' @ dq @ ''Check flask==2.0.1, requests>=2.25.0'' @ dq @ nl @
     ''- '' @ dq @ ''Analyze Python packages: numpy==1.19.0, pandas'' @ dq @ nl @
     nl @
     ''**Analyze npm packages:**'' @ nl @
     ''- '' @ dq @ ''Check express@4.17.1, axios@0.21.1'' @ dq @ nl @
     ''- '' @ dq @ ''Analyze npm packages: react@17.0.0, lodash@4.17.20'' @ dq @ nl @
     nl @
     ''I'' @ sq @ ''ll check for:'' @ nl @
     glyph_ok @ '' Outdated versions'' @ nl @
     glyph_ok @ '' Security vulnerabilities (CVEs)'' @ nl @
     glyph_ok @ '' Deprecated packages'' @ nl @
     glyph_ok @ '' Overall health score'' @ nl @
     nl @
     ''Just send me a list of packages and I'' @ sq @ ''ll analyze them for you!'' @ nl"

section \<open>Protocol data (models/a2a.py)\<close>

text \<open>
  A parsed JSON document, as \<open>json.loads\<close> returns it. An object is the list of its
  members, with distinct keys (the parser keeps one value for each key). A number is an
  integer or a float; a float is finite, with its value, or one of the three values that
  the parser gives for \<open>Infinity\<close> (and for a literal out of range, such as \<open>1e400\<close>),
  \<open>-Infinity\<close> and \<open>NaN\<close>.

  A string of a document is the list of its code points: the parser accepts every code
  point, also a lone surrogate (written \<open>\ud800\<close> in the JSON text), which cannot be
  encoded as UTF-8. \<open>codes\<close> gives the code points of a text of the model.
\<close>

type_synonym unicode = "nat list"

definition codes :: "string \<Rightarrow> unicode" where
  "codes s = map of_char s"

definition encodable :: "unicode \<Rightarrow> bool" where
  \<comment> \<open>whether \<open>s.encode("utf-8")\<close> returns: it raises UnicodeEncodeError on a surrogate\<close>
  "encodable s = list_all (\<lambda>c. c < 55296 \<or> 57343 < c) s"

datatype pyfloat = Finite rat | PosInf | NegInf | NaN

datatype json =
    JNull | JBool bool | JInt int | JFloat pyfloat | JStr unicode | JArr "json list"
  | JObj "(unicode \<times> json) list"

fun truthy :: "json \<Rightarrow> bool" where
  \<comment> \<open>the truth value of a Python value read from JSON\<close>
  "truthy JNull = False"
| "truthy (JBool b) = b"
| "truthy (JInt n) = (n \<noteq> 0)"
| "truthy (JFloat f) = (f \<noteq> Finite 0)"
| "truthy (JStr s) = (s \<noteq> [])"
| "truthy (JArr xs) = (xs \<noteq> [])"
| "truthy (JObj kvs) = (kvs \<noteq> [])"

fun type_name :: "json \<Rightarrow> string" where
  \<comment> \<open>the name of the Python type of the value, as error texts print it\<close>
  "type_name JNull = ''NoneType''"
| "type_name (JBool _) = ''bool''"
| "type_name (JInt _) = ''int''"
| "type_name (JFloat _) = ''float''"
| "type_name (JStr _) = ''str''"
| "type_name (JArr _) = ''list''"
| "type_name (JObj _) = ''dict''"


definition dict_get :: "(unicode \<times> json) list \<Rightarrow> string \<Rightarrow> json option" where
  \<comment> \<open>\<open>d.get(name)\<close> on the members of an object, and \<open>getattr\<close> on the extra members of a
      model: None when there is no such member\<close>
  "dict_get members name = map_of members (codes name)"

fun iterate :: "json \<Rightarrow> json list option" where
  \<comment> \<open>the items that iterating the Python value yields: the elements of a list, the
      characters of a string, the keys of a dict; None where iterating raises TypeError\<close>
  "iterate (JArr xs) = Some xs"
| "iterate (JStr s) = Some (map (\<lambda>c. JStr [c]) s)"
| "iterate (JObj kvs) = Some (map (\<lambda>kv. JStr (fst kv)) kvs)"
| "iterate _ = None"

datatype context_key = KStr unicode | KNum rat | KPosInf | KNegInf | KNaN | KNone

fun key_of :: "json \<Rightarrow> context_key option" where
  \<comment> \<open>the Python value as a key of a dict: None where hashing it raises TypeError. Numbers
      that are equal are one key, and \<open>True\<close> is the number 1; \<open>NaN\<close> is the one float
      object that the parser returns for that literal, found as a key by its identity\<close>
  "key_of JNull = Some KNone"
| "key_of (JBool b) = Some (KNum (if b then 1 else 0))"
| "key_of (JInt n) = Some (KNum (of_int n))"
| "key_of (JFloat (Finite q)) = Some (KNum q)"
| "key_of (JFloat PosInf) = Some KPosInf"
| "key_of (JFloat NegInf) = Some KNegInf"
| "key_of (JFloat NaN) = Some KNaN"
| "key_of (JStr s) = Some (KStr s)"
| "key_of (JArr _) = None"
| "key_of (JObj _) = None"

datatype role = User | Agent | System

text \<open>
  The models below keep the declared fields that the handler reads or writes. Every model
  accepts undeclared extra members and keeps their raw values. Those of the params of a
  request are kept here, as the second component of \<open>MessageParams\<close> and \<open>ExecuteParams\<close>,
  since the handler reads \<open>contextId\<close>, \<open>messages\<close> and \<open>message\<close> from whichever of the
  two models the validation has chosen. The extra members of the other models, the
  \<open>metadata\<close> of a message and the \<open>configuration\<close> of a message/send request are never
  read by the handler and are left out.
\<close>

record message_part =
  part_kind :: string
  part_text :: "string option"
  part_data :: "(unicode \<times> json) list option"
  part_file_url :: "string option"

record a2a_message =
  msg_role :: role
  msg_parts :: "message_part list"
  messageId :: "string option"
  taskId :: "string option"

record execute_params =
  ep_contextId :: "string option"
  ep_taskId :: "string option"
  ep_messages :: "a2a_message list"

datatype params =
    MessageParams a2a_message "(unicode \<times> json) list"
  | ExecuteParams execute_params "(unicode \<times> json) list"

record jsonrpc_request =
  req_id :: string
  req_method :: string
  req_params :: params

record artifact =
  artifactId :: string
  artifact_name :: string
  artifact_data :: "aggregate option"  \<comment> \<open>the one part, of kind \<open>data\<close>\<close>

record task_status =
  ts_state :: string
  ts_timestamp :: string
  ts_message :: "a2a_message option"

record task_result =
  tr_id :: string
  tr_contextId :: string
  tr_status :: task_status
  tr_artifacts :: "artifact list"
  tr_history :: "a2a_message list"

record jsonrpc_response =
  resp_id :: string
  resp_result :: "task_result option"
  resp_error :: "(int \<times> string) option"  \<comment> \<open>code and message\<close>

section \<open>Protocol dispatcher (a2a_handler.py)\<close>

text \<open>
  What the handler takes from outside: \<open>uuid4 rt n\<close> is the text of the identifier that
  call number \<open>n\<close> of \<open>str(uuid4())\<close> returns, \<open>utcnow rt n\<close> the text of the clock at its
  reading number \<open>n\<close>, \<open>repr_dict\<close> is \<open>str\<close> on a dict and \<open>json_dumps\<close> is \<open>json.dumps\<close>.
  \<open>as_message\<close> is the validation of a raw value as a message, by which \<open>TaskResult\<close>
  reads an item of its history that is not a message object: None when the value is not a
  valid message; \<open>validation_text\<close> is the text of the validation error for the raw items
  that are not valid. \<open>render_error\<close> is the text of the exception that \<open>JSONResponse\<close>
  raises for an error answer with the given id and details that it cannot render.

  The state is the conversation store of the handler, with the numbers of identifiers
  drawn and clock readings made so far. The store is a dict. A key is a string in every
  declared use; an item is a message object, or the raw value that an execute request
  appends when its params were read as message params with an extra \<open>messages\<close> member.
\<close>

record runtime =
  uuid4 :: "nat \<Rightarrow> string"
  utcnow :: "nat \<Rightarrow> string"
  repr_dict :: "(unicode \<times> json) list \<Rightarrow> string"
  json_dumps :: "(unicode \<times> json) list \<Rightarrow> string"
  as_message :: "json \<Rightarrow> a2a_message option"
  validation_text :: "json list \<Rightarrow> string"
  render_error :: "json option \<Rightarrow> unicode \<Rightarrow> string"

datatype stored = Msg a2a_message | Raw json

record handler_state =
  conversation_history :: "(context_key \<times> stored list) list"
  uuid_calls :: nat
  clock_reads :: nat

datatype py_exception = AttributeError string | OtherException string

definition history_of :: "handler_state \<Rightarrow> context_key \<Rightarrow> stored list" where
  \<comment> \<open>the stored conversation of a context id, empty while the id is unknown\<close>
  "history_of st context_id =
     (case map_of (conversation_history st) context_id of None \<Rightarrow> [] | Some h \<Rightarrow> h)"

definition ensure_context :: "context_key \<Rightarrow> handler_state \<Rightarrow> handler_state" where
  \<comment> \<open>\<open>if context_id not in self.conversation_history: self.conversation_history[context_id] = []\<close>\<close>
  "ensure_context context_id st =
     (if context_id \<notin> fst ` set (conversation_history st)
      then st\<lparr>conversation_history := dict_set context_id [] (conversation_history st)\<rparr>
      else st)"

definition extend_history :: "context_key \<Rightarrow> stored list \<Rightarrow> handler_state \<Rightarrow> handler_state" where
  \<comment> \<open>\<open>self.conversation_history[context_id].extend(items)\<close>, and \<open>append\<close> for one item\<close>
  "extend_history context_id items st =
     st\<lparr>conversation_history :=
          dict_set context_id (history_of st context_id @ items) (conversation_history st)\<rparr>"

definition or_uuid4 :: "runtime \<Rightarrow> string option \<Rightarrow> handler_state \<Rightarrow> string \<times> handler_state" where
  \<comment> \<open>\<open>x or str(uuid4())\<close> on an optional string: the identifier is drawn only when \<open>x\<close> is
      None or empty\<close>
  "or_uuid4 rt x st =
     (case x of
        Some t \<Rightarrow> if t \<noteq> [] then (t, st)
                  else (uuid4 rt (uuid_calls st), st\<lparr>uuid_calls := Suc (uuid_calls st)\<rparr>)
      | None \<Rightarrow> (uuid4 rt (uuid_calls st), st\<lparr>uuid_calls := Suc (uuid_calls st)\<rparr>))"

definition raw_or_uuid4 :: "runtime \<Rightarrow> json \<Rightarrow> handler_state \<Rightarrow> json \<times> handler_state" where
  \<comment> \<open>\<open>x or str(uuid4())\<close> on a raw value\<close>
  "raw_or_uuid4 rt x st =
     (if truthy x then (x, st)
      else (JStr (codes (uuid4 rt (uuid_calls st))), st\<lparr>uuid_calls := Suc (uuid_calls st)\<rparr>))"

definition part_content :: "runtime \<Rightarrow> message_part \<Rightarrow> string list" where
  \<comment> \<open>one round of the loop of \<open>_extract_text_from_message\<close>. The data of a part is a dict,
      so decoding a file part as base64 raises and the part is printed with \<open>str\<close>\<close>
  "part_content rt part =
     (if part_kind part = ''text'' \<and> truthy_str (part_text part) then
        (case part_text part of Some t \<Rightarrow> [t] | None \<Rightarrow> [])
      else if part_kind part = ''file'' \<and> part_data part \<noteq> None \<and> part_data part \<noteq> Some [] then
        (case part_data part of Some d \<Rightarrow> [repr_dict rt d] | None \<Rightarrow> [])
      else if part_kind part = ''data'' \<and> part_data part \<noteq> None \<and> part_data part \<noteq> Some [] then
        (case part_data part of Some d \<Rightarrow> [json_dumps rt d] | None \<Rightarrow> [])
      else [])"

definition extract_text_from_message :: "runtime \<Rightarrow> a2a_message \<Rightarrow> string" where
  "extract_text_from_message rt message =
     join '' '' (concat (map (part_content rt) (msg_parts message)))"

definition create_artifact :: "runtime \<Rightarrow> aggregate option \<Rightarrow> handler_state \<Rightarrow> artifact \<times> handler_state" where
  \<comment> \<open>the artifact draws its \<open>artifactId\<close>\<close>
  "create_artifact rt data st =
     (\<lparr>artifactId = uuid4 rt (uuid_calls st), artifact_name = ''package-health-report.json'',
       artifact_data = data\<rparr>,
      st\<lparr>uuid_calls := Suc (uuid_calls st)\<rparr>)"

definition report_python ::
  "runtime \<Rightarrow> services \<Rightarrow> string list \<Rightarrow> handler_state \<Rightarrow> (string \<times> artifact list) \<times> handler_state" where
  "report_python rt sv packages st =
     (let result = analyze_python sv packages;
          (a, st') = create_artifact rt result st
      in ((format_analysis_result result ''Python'', [a]), st'))"

definition report_npm ::
  "runtime \<Rightarrow> services \<Rightarrow> (string \<times> string) list \<Rightarrow> handler_state \<Rightarrow>
   (string \<times> artifact list) \<times> handler_state" where
  "report_npm rt sv packages st =
     (let result = analyze_npm sv packages;
          (a, st') = create_artifact rt result st
      in ((format_analysis_result result ''npm'', [a]), st'))"

definition process_user_message ::
  "runtime \<Rightarrow> services \<Rightarrow> string \<Rightarrow> handler_state \<Rightarrow> (string \<times> artifact list) \<times> handler_state" where
  "process_user_message rt sv user_text st =
     (let user_text_lower = lower user_text in
      if list_ex (\<lambda>word. str_contains word user_text_lower)
           [''help'', ''what can you do'', ''commands'']
      then ((get_help_message, []), st)
      else if str_contains ''python'' user_text_lower \<or> str_contains ''pip'' user_text_lower \<or>
              str_contains ''requirements'' user_text_lower
      then (let packages = extract_python_packages user_text in
            if packages \<noteq> [] then report_python rt sv packages st
            else ((''Please provide Python packages to analyze. '' @
                   ''Example: `flask==2.0.1, requests>=2.25.0`'', []), st))
      else if str_contains ''npm'' user_text_lower \<or> str_contains ''node'' user_text_lower \<or>
              str_contains ''javascript'' user_text_lower
      then (let packages = extract_npm_packages user_text in
            if packages \<noteq> [] then report_npm rt sv packages st
            else ((''Please provide npm packages to analyze. '' @
                   ''Example: `express@4.17.1, axios@0.21.1`'', []), st))
      else (let python_packages = extract_python_packages user_text;
                npm_packages = extract_npm_packages user_text in
            if python_packages \<noteq> [] then report_python rt sv python_packages st
            else if npm_packages \<noteq> [] then report_npm rt sv npm_packages st
            else ((get_help_message, []), st)))"

definition error_response :: "string \<Rightarrow> int \<Rightarrow> string \<Rightarrow> jsonrpc_response" where
  "error_response request_id code message =
     \<lparr>resp_id = request_id, resp_result = None, resp_error = Some (code, message)\<rparr>"

definition no_attribute :: "string \<Rightarrow> string \<Rightarrow> string" where
  \<comment> \<open>the text of the AttributeError of reading a field that an object does not have\<close>
  "no_attribute cls field = sq @ cls @ sq @ '' object has no attribute '' @ sq @ field @ sq"

definition agent_reply ::
  "runtime \<Rightarrow> string \<Rightarrow> string option \<Rightarrow> handler_state \<Rightarrow> a2a_message \<times> handler_state" where
  \<comment> \<open>\<open>A2AMessage(role="agent", parts=[MessagePart(kind="text", text=response_text)],
      taskId=...)\<close>; the message draws its \<open>messageId\<close>\<close>
  "agent_reply rt response_text task st =
     (\<lparr>msg_role = Agent,
       msg_parts = [\<lparr>part_kind = ''text'', part_text = Some response_text, part_data = None,
                     part_file_url = None\<rparr>],
       messageId = Some (uuid4 rt (uuid_calls st)), taskId = task\<rparr>,
      st\<lparr>uuid_calls := Suc (uuid_calls st)\<rparr>)"

definition completed :: "runtime \<Rightarrow> a2a_message \<Rightarrow> handler_state \<Rightarrow> task_status \<times> handler_state" where
  \<comment> \<open>\<open>TaskStatus(state="completed", message=agent_message)\<close>; the status reads the clock\<close>
  "completed rt agent_message st =
     (\<lparr>ts_state = ''completed'', ts_timestamp = utcnow rt (clock_reads st),
       ts_message = Some agent_message\<rparr>,
      st\<lparr>clock_reads := Suc (clock_reads st)\<rparr>)"

fun invalid_items :: "runtime \<Rightarrow> stored list \<Rightarrow> json list" where
  \<comment> \<open>the raw items that are not valid messages\<close>
  "invalid_items rt [] = []"
| "invalid_items rt (Msg m # items) = invalid_items rt items"
| "invalid_items rt (Raw v # items) =
     (case as_message rt v of None \<Rightarrow> v # invalid_items rt items
      | Some m \<Rightarrow> invalid_items rt items)"

fun valid_messages :: "runtime \<Rightarrow> stored list \<Rightarrow> a2a_message list" where
  \<comment> \<open>the items as messages: a message object as it is, a raw item as its validation\<close>
  "valid_messages rt [] = []"
| "valid_messages rt (Msg m # items) = m # valid_messages rt items"
| "valid_messages rt (Raw v # items) =
     (case as_message rt v of None \<Rightarrow> valid_messages rt items
      | Some m \<Rightarrow> m # valid_messages rt items)"

definition task_response ::
  "runtime \<Rightarrow> string \<Rightarrow> string \<Rightarrow> string \<Rightarrow> task_status \<Rightarrow> artifact list \<Rightarrow> stored list \<Rightarrow>
   py_exception + jsonrpc_response" where
  \<comment> \<open>\<open>JSONRPCResponse(id=request.id, result=TaskResult(id=..., contextId=..., status=...,
      artifacts=..., history=...))\<close>: building the result validates the items of the
      history and raises when one of them is not a valid message\<close>
  "task_response rt request_id result_id context_id status artifacts items =
     (if invalid_items rt items \<noteq> [] then
        Inl (OtherException (validation_text rt (invalid_items rt items)))
      else
        Inr \<lparr>resp_id = request_id,
             resp_result = Some \<lparr>tr_id = result_id, tr_contextId = context_id,
                                  tr_status = status, tr_artifacts = artifacts,
                                  tr_history = valid_messages rt items\<rparr>,
             resp_error = None\<rparr>)"

definition handle_message_send ::
  "runtime \<Rightarrow> services \<Rightarrow> jsonrpc_request \<Rightarrow> handler_state \<Rightarrow>
   (py_exception + jsonrpc_response) \<times> handler_state" where
  \<comment> \<open>When the params are execute params, \<open>params.message\<close> is an extra member or raises;
      as an extra member it is a raw value, and reading its \<open>parts\<close> raises\<close>
  "handle_message_send rt sv request st =
     (case req_params request of
        ExecuteParams _ extra \<Rightarrow>
          (case dict_get extra ''message'' of
             None \<Rightarrow> (Inl (AttributeError (no_attribute ''ExecuteParams'' ''message'')), st)
           | Some v \<Rightarrow> (Inl (AttributeError (no_attribute (type_name v) ''parts'')), st))
      | MessageParams user_message _ \<Rightarrow>
          (let user_text = extract_text_from_message rt user_message;
               (context_id, st) = or_uuid4 rt (taskId user_message) st;
               st = ensure_context (KStr (codes context_id)) st;
               st = extend_history (KStr (codes context_id)) [Msg user_message] st;
               ((response_text, artifacts), st) = process_user_message rt sv user_text st;
               (agent_message, st) = agent_reply rt response_text (Some context_id) st;
               st = extend_history (KStr (codes context_id)) [Msg agent_message] st;
               (result_id, st) = or_uuid4 rt (taskId user_message) st;
               (status, st) = completed rt agent_message st
           in (task_response rt (req_id request) result_id context_id status artifacts
                 (history_of st (KStr (codes context_id))), st)))"

definition handle_execute_extra ::
  "runtime \<Rightarrow> jsonrpc_request \<Rightarrow> (unicode \<times> json) list \<Rightarrow> handler_state \<Rightarrow>
   (py_exception + jsonrpc_response) \<times> handler_state" where
  \<comment> \<open>\<open>_handle_execute\<close> on message params: \<open>contextId\<close> and \<open>messages\<close> are extra members,
      with raw values, or reading them raises AttributeError. A raw context id that cannot
      be hashed raises TypeError at the lookup in the store, raw messages that cannot be
      iterated raise TypeError in \<open>extend\<close>, and reading the \<open>role\<close> of the first raw item
      raises AttributeError\<close>
  "handle_execute_extra rt request extra st =
     (case dict_get extra ''contextId'' of
        None \<Rightarrow> (Inl (AttributeError (no_attribute ''MessageParams'' ''contextId'')), st)
      | Some given \<Rightarrow>
          (let (context_id, st) = raw_or_uuid4 rt given st in
           case key_of context_id of
             None \<Rightarrow>
               (Inl (OtherException (''unhashable type: '' @ sq @ type_name context_id @ sq)), st)
           | Some key \<Rightarrow>
               (let st = ensure_context key st in
                case dict_get extra ''messages'' of
                  None \<Rightarrow> (Inl (AttributeError (no_attribute ''MessageParams'' ''messages'')), st)
                | Some messages \<Rightarrow>
                    (case iterate messages of
                       None \<Rightarrow>
                         (Inl (OtherException
                                 (sq @ type_name messages @ sq @ '' object is not iterable'')), st)
                     | Some items \<Rightarrow>
                         (let st = extend_history key (map Raw items) st in
                          case items of
                            [] \<Rightarrow>
                              (Inr (error_response (req_id request) (- 32602)
                                      ''No user message found in execute request''), st)
                          | item # _ \<Rightarrow>
                              (Inl (AttributeError (no_attribute (type_name item) ''role'')),
                               st))))))"

definition handle_execute ::
  "runtime \<Rightarrow> services \<Rightarrow> jsonrpc_request \<Rightarrow> handler_state \<Rightarrow>
   (py_exception + jsonrpc_response) \<times> handler_state" where
  "handle_execute rt sv request st =
     (case req_params request of
        MessageParams _ extra \<Rightarrow> handle_execute_extra rt request extra st
      | ExecuteParams params _ \<Rightarrow>
          (let (context_id, st) = or_uuid4 rt (ep_contextId params) st;
               st = ensure_context (KStr (codes context_id)) st;
               st = extend_history (KStr (codes context_id)) (map Msg (ep_messages params)) st;
               user_messages = filter (\<lambda>msg. msg_role msg = User) (ep_messages params)
           in if user_messages = [] then
                (Inr (error_response (req_id request) (- 32602)
                        ''No user message found in execute request''), st)
              else
                (let user_text = extract_text_from_message rt (last user_messages);
                     ((response_text, artifacts), st) = process_user_message rt sv user_text st;
                     (agent_message, st) = agent_reply rt response_text (ep_taskId params) st;
                     st = extend_history (KStr (codes context_id)) [Msg agent_message] st;
                     (result_id, st) = or_uuid4 rt (ep_taskId params) st;
                     (status, st) = completed rt agent_message st
                 in (task_response rt (req_id request) result_id context_id status artifacts
                       (history_of st (KStr (codes context_id))), st))))"

definition handle_message ::
  "runtime \<Rightarrow> services \<Rightarrow> jsonrpc_request \<Rightarrow> handler_state \<Rightarrow> jsonrpc_response \<times> handler_state" where
  \<comment> \<open>the dispatch and the two \<open>except\<close> clauses around it\<close>
  "handle_message rt sv request st =
     (let (outcome, st') =
            (if req_method request = ''message/send'' then handle_message_send rt sv request st
             else if req_method request = ''execute'' then handle_execute rt sv request st
             else (Inr (error_response (req_id request) (- 32601)
                          (''Method not found: '' @ req_method request)), st))
      in case outcome of
           Inr response \<Rightarrow> (response, st')
         | Inl (AttributeError e) \<Rightarrow>
             (error_response (req_id request) (- 32602) (''Invalid params: '' @ e), st')
         | Inl (OtherException e) \<Rightarrow>
             (error_response (req_id request) (- 32603) (''Internal error: '' @ e), st'))"

section \<open>The endpoint (main_a2a.py)\<close>








section \<open>A sample environment\<close>

text \<open>
  Concrete services, runtime and state, on which the instances of the theorems below are
  evaluated: registries that know two packages, one advisory, identifiers \<open>uuid-0\<close>,
  \<open>uuid-1\<close>, ..., a validation of raw items that accepts none.
\<close>

definition sample_services :: services where
  "sample_services =
     \<lparr>pypi_latest = (\<lambda>name. if name = ''flask'' then Some ''3.0.0'' else None),
      npm_latest = (\<lambda>name. if name = ''express'' then Some ''4.17.1'' else None),
      osv_query = (\<lambda>name ecosystem.
         if name = ''flask'' then
           [\<lparr>vuln_id = ''GHSA-1'', vuln_summary = ''sample'', vuln_severity = ''UNKNOWN'',
             vuln_published = ''2023-01-01''\<rparr>]
         else [])\<rparr>"

definition sample_runtime :: runtime where
  "sample_runtime =
     \<lparr>uuid4 = (\<lambda>n. ''uuid-'' @ str_nat n), utcnow = (\<lambda>n. ''time-'' @ str_nat n),
      repr_dict = (\<lambda>d. ''{}''), json_dumps = (\<lambda>d. ''{}''),
      as_message = (\<lambda>v. None), validation_text = (\<lambda>vs. ''validation error''),
      render_error = (\<lambda>request_id details. ''render error'')\<rparr>"



definition empty_state :: handler_state where
  "empty_state = \<lparr>conversation_history = [], uuid_calls = 0, clock_reads = 0\<rparr>"

definition text_message :: "role \<Rightarrow> string \<Rightarrow> string option \<Rightarrow> a2a_message" where
  "text_message r t task =
     \<lparr>msg_role = r,
      msg_parts = [\<lparr>part_kind = ''text'', part_text = Some t, part_data = None,
                    part_file_url = None\<rparr>],
      messageId = Some ''m'', taskId = task\<rparr>"

definition execute_request :: "string option \<Rightarrow> a2a_message list \<Rightarrow> jsonrpc_request" where
  "execute_request context msgs =
     \<lparr>req_id = ''1'', req_method = ''execute'',
      req_params =
        ExecuteParams \<lparr>ep_contextId = context, ep_taskId = None, ep_messages = msgs\<rparr> []\<rparr>"

definition send_request :: "a2a_message \<Rightarrow> jsonrpc_request" where
  "send_request msg =
     \<lparr>req_id = ''1'', req_method = ''message/send'', req_params = MessageParams msg []\<rparr>"

definition execute_request_extra :: "a2a_message \<Rightarrow> (unicode \<times> json) list \<Rightarrow> jsonrpc_request" where
  \<comment> \<open>an execute request whose params were read as message params: the body carried a
      valid \<open>message\<close> member, and its other members are extra\<close>
  "execute_request_extra msg extra =
     \<lparr>req_id = ''1'', req_method = ''execute'', req_params = MessageParams msg extra\<rparr>"

definition raw_message :: "string \<Rightarrow> json" where
  \<comment> \<open>the JSON text of a message with one text part\<close>
  "raw_message r =
     JObj [(codes ''role'', JStr (codes r)),
           (codes ''parts'',
            JArr [JObj [(codes ''kind'', JStr (codes ''text'')),
                        (codes ''text'', JStr (codes ''noted''))]])]"

section \<open>The rules of the specification\<close>

text \<open>
  The recommendation rules as the specification words them: an ordered list of conditions
  and texts, of which the first that holds wins.
\<close>

fun first_match :: "(bool \<times> 'a) list \<Rightarrow> 'a \<Rightarrow> 'a" where
  "first_match [] dflt = dflt"
| "first_match ((c, t) # rules) dflt = (if c then t else first_match rules dflt)"

definition recommendation_rules :: "int \<Rightarrow> bool \<Rightarrow> int \<Rightarrow> bool \<Rightarrow> (bool \<times> string) list" where
  "recommendation_rules health_score is_outdated vuln_count is_deprecated =
     [(health_score \<ge> 80, ''Package is healthy!''),
      (is_deprecated, ''Package is deprecated. Consider finding an alternative.''),
      (vuln_count > 0,
         ''Update immediately! '' @ str_int vuln_count @ '' security vulnerability/ies found.''),
      (is_outdated, ''Update to the latest version when possible.'')]"

section \<open>Properties of the scorer and the extractor\<close>

text \<open>
  C1: for a vulnerability count that is not negative, the health score is
  \<open>max(0, 100 - (20 if outdated) - min(50, 15 * vuln_count) - (30 if deprecated))\<close>, and the
  five listed inputs give 100, 80, 85, 50 and 20.
\<close>

theorem calculate_health_score_formula:
  "0 \<le> vuln_count \<Longrightarrow>
     calculate_health_score is_outdated vuln_count is_deprecated =
       max 0 (100 - (if is_outdated then 20 else 0) - min 50 (15 * vuln_count)
                  - (if is_deprecated then 30 else 0)) \<and>
     calculate_health_score False 0 False = 100 \<and>
     calculate_health_score True 0 False = 80 \<and>
     calculate_health_score False 1 False = 85 \<and>
     calculate_health_score False 10 False = 50 \<and>
     calculate_health_score True 2 True = 20"
  by (simp add: calculate_health_score_def Let_def mult.commute)

text \<open>
  The formula at an outdated package with three advisories.
\<close>

theorem calculate_health_score_formula_witness:
  "(0::int) \<le> 3 \<and> calculate_health_score True 3 False = 35"
  using calculate_health_score_formula [of 3 True False] by simp

text \<open>
  C4: the recommendation is the text of the first rule that holds, in the order healthy
  score, deprecated, vulnerabilities, outdated, and the generic text when none holds.
\<close>

theorem get_recommendation_first_match:
  "get_recommendation health_score is_outdated vuln_count is_deprecated =
     first_match (recommendation_rules health_score is_outdated vuln_count is_deprecated)
       ''Review package health metrics.''"
  by (simp add: get_recommendation_def recommendation_rules_def)

text \<open>
  C5: Python-mode extraction of the example text gives the two specifiers, in order, and the
  scan of the whitespace-delimited words adds nothing.
\<close>

theorem extract_python_example:
  "extract_python_packages ''flask==2.0.1, requests>=2.25.0'' =
     [''flask==2.0.1'', ''requests>=2.25.0'']"
  by code_simp

text \<open>
  The scan of the words never drops a package and adds every stripped word that contains
  an operator.
\<close>

lemma fallback_scan_keeps: "x \<in> set packages \<Longrightarrow> x \<in> set (fallback_scan packages ws)"
  by (induction ws arbitrary: packages) (simp_all add: Let_def)

lemma fallback_scan_covers:
  "word \<in> set ws \<Longrightarrow> list_ex (\<lambda>op. str_contains op (strip_chars '','' word)) version_ops \<Longrightarrow>
   strip_chars '','' word \<in> set (fallback_scan packages ws)"
proof (induction ws arbitrary: packages)
  case Nil
  then show ?case by simp
next
  case (Cons w ws)
  show ?case
  proof (cases "word = w")
    case True
    have "strip_chars '','' w \<in> set (fallback_scan (packages @ [strip_chars '','' w]) ws)"
      by (rule fallback_scan_keeps) simp
    moreover have "strip_chars '','' w \<in> set packages \<Longrightarrow>
        strip_chars '','' w \<in> set (fallback_scan packages ws)"
      by (rule fallback_scan_keeps)
    ultimately show ?thesis using True Cons.prems(2) by (auto simp: Let_def)
  next
    case False
    then have "word \<in> set ws" using Cons.prems(1) by simp
    then show ?thesis using Cons.IH Cons.prems(2) by (simp add: Let_def)
  qed
qed

text \<open>
  C10: with whitespace around the operator the result holds the bare operator token, since
  every comma-stripped word that contains an operator ends up in the result.
\<close>

theorem extract_python_bare_operator:
  "extract_python_packages ''flask == 2.0.1'' = [''flask==2.0.1'', ''==''] \<and>
   (\<forall>text word. word \<in> set (split_ws text) \<longrightarrow>
      list_ex (\<lambda>op. str_contains op (strip_chars '','' word)) version_ops \<longrightarrow>
      strip_chars '','' word \<in> set (extract_python_packages text))"
proof -
  have "extract_python_packages ''flask == 2.0.1'' = [''flask==2.0.1'', ''=='']"
    by code_simp
  then show ?thesis
    by (simp add: extract_python_packages_def Let_def fallback_scan_covers)
qed

text \<open>
  The word \<open>==\<close> of the example text.
\<close>

theorem extract_python_bare_operator_witness:
  "''=='' \<in> set (split_ws ''flask == 2.0.1'') \<and>
   list_ex (\<lambda>op. str_contains op (strip_chars '','' ''=='')) version_ops \<and>
   strip_chars '','' ''=='' \<in> set (extract_python_packages ''flask == 2.0.1'')"
proof -
  have a: "''=='' \<in> set (split_ws ''flask == 2.0.1'')" by code_simp
  have b: "list_ex (\<lambda>op. str_contains op (strip_chars '','' ''=='')) version_ops" by code_simp
  from extract_python_bare_operator a b show ?thesis by blast
qed

section \<open>Properties of the pipeline and the formatter\<close>

text \<open>
  C2, as the code has it: the pipeline returns the empty aggregate for an empty specifier
  list in both ecosystems, and the formatter renders the empty aggregate as
  \<open>No <ecosystem> packages were analyzed.\<close>, with the ecosystem label in the sentence; no
  label makes that the text \<open>No packages were analyzed.\<close>
\<close>

theorem empty_analysis_rendering:
  "analyze_python sv [] = None \<and> analyze_npm sv [] = None \<and>
   format_analysis_result None ecosystem = ''No '' @ ecosystem @ '' packages were analyzed.'' \<and>
   format_analysis_result None ecosystem \<noteq> ''No packages were analyzed.''"
proof -
  have "length (format_analysis_result None ecosystem) \<noteq> length ''No packages were analyzed.''"
    by (simp add: format_analysis_result_def)
  then have "format_analysis_result None ecosystem \<noteq> ''No packages were analyzed.''"
    by metis
  then show ?thesis
    by (simp add: analyze_python_def analyze_npm_def format_analysis_result_def)
qed

text \<open>
  C2 as stated fails: for the empty Python specifier list the rendered text names the
  ecosystem.
\<close>

theorem empty_analysis_rendering_counterexample:
  "format_analysis_result (analyze_python sample_services []) ''Python'' =
     ''No Python packages were analyzed.'' \<and>
   format_analysis_result (analyze_python sample_services []) ''Python'' \<noteq>
     ''No packages were analyzed.''"
  by (simp add: analyze_python_def format_analysis_result_def)

section \<open>Properties of the endpoint\<close>

text \<open>The code points of a text of the model: distinct texts differ, and none is a surrogate.\<close>

lemma codes_eq_iff [simp]: "codes s = codes t \<longleftrightarrow> s = t"
  by (simp add: codes_def inj_map_eq_map inj_def)

lemma codes_Nil [simp]: "codes s = [] \<longleftrightarrow> s = []"
  by (simp add: codes_def)

lemma of_char_less: "of_char c < (55296::nat)"
proof -
  have "(of_char c :: nat) mod 256 < 256" by (rule mod_less_divisor) simp
  then have "(of_char c :: nat) < 256" by (simp only: of_char_mod_256)
  also have "(256::nat) < 55296" by simp
  finally show ?thesis .
qed

lemma encodable_codes [simp]: "encodable (codes s)"
  by (simp add: encodable_def codes_def list_all_iff of_char_less)




section \<open>Properties of the npm extraction\<close>

text \<open>
  Every match of a pattern has one group for each captured repetition, so every match of
  the npm pattern is a name and a version.
\<close>

lemma try_counts_Some: "try_counts f lo n = Some r \<Longrightarrow> \<exists>k. f k = Some r"
  by (induction n) (auto split: if_splits option.splits)

lemma match_items_groups:
  "match_items its prev s = Some (gs, n) \<Longrightarrow>
   length gs = length (filter (\<lambda>it. case it of Rep cap _ _ \<Rightarrow> cap | _ \<Rightarrow> False) its)"
proof (induction its prev s arbitrary: gs n rule: match_items.induct)
  case (1 prev s)
  then show ?case by simp
next
  case (2 its prev s)
  then show ?case by (simp split: if_splits)
next
  case (3 c its prev s)
  then show ?case by (auto split: list.splits if_splits)
next
  case (4 cap lo cls its prev s)
  from "4.prems" obtain k where
    "map_option (\<lambda>(gs, j). (if cap then take k s # gs else gs, k + j))
       (match_items its (if k = 0 then prev else Some (s ! (k - 1))) (drop k s)) = Some (gs, n)"
    using try_counts_Some by fastforce
  then obtain gs' j where
    m: "match_items its (if k = 0 then prev else Some (s ! (k - 1))) (drop k s) = Some (gs', j)"
    and g: "gs = (if cap then take k s # gs' else gs')"
    by auto
  from "4.IH" [OF m] g show ?case by simp
qed

lemma findall_from_groups:
  "m \<in> set (findall_from its prev s) \<Longrightarrow>
   length m = length (filter (\<lambda>it. case it of Rep cap _ _ \<Rightarrow> cap | _ \<Rightarrow> False) its)"
proof (induction "length s" arbitrary: s prev rule: less_induct)
  case less
  show ?case
  proof (cases "match_items its prev s")
    case None
    with less.prems obtain c cs where s: "s = c # cs" and m: "m \<in> set (findall_from its (Some c) cs)"
      by (cases s) (auto simp: findall_from.simps [of its prev])
    from less.hyps [of cs "Some c"] s m show ?thesis by simp
  next
    case (Some r)
    obtain gs n where r: "r = (gs, n)" by (cases r)
    note mi = Some [unfolded r]
    note len = match_items_groups [OF mi]
    show ?thesis
    proof (cases "0 < n \<and> n \<le> length s")
      case True
      with less.prems mi have "m = gs \<or> m \<in> set (findall_from its (Some (s ! (n - 1))) (drop n s))"
        by (auto simp: findall_from.simps [of its prev s])
      moreover have "length (drop n s) < length s" using True by auto
      ultimately show ?thesis using len less.hyps [of "drop n s" "Some (s ! (n - 1))"] by blast
    next
      case False
      show ?thesis
      proof (cases s)
        case Nil
        with less.prems mi False len show ?thesis
          by (auto simp: findall_from.simps [of its prev "[]"])
      next
        case (Cons c cs)
        with less.prems mi False have "m = gs \<or> m \<in> set (findall_from its (Some c) cs)"
          by (auto simp: findall_from.simps [of its prev "c # cs"])
        then show ?thesis using len less.hyps [of cs "Some c"] Cons by auto
      qed
    qed
  qed
qed

lemma npm_matches_pairs: "list_all (\<lambda>m. length m = 2) (findall npm_pattern text)"
  unfolding list_all_iff findall_def
  by (auto dest!: findall_from_groups simp: npm_pattern_def)

text \<open>Storing under a key is the update of the dict as a map, and keeps the keys distinct.\<close>

lemma map_of_replace:
  "map_of (map (\<lambda>(k', v'). if k' = k then (k', v) else (k', v')) d) x =
     (if x = k then (case map_of d k of None \<Rightarrow> None | Some w \<Rightarrow> Some v) else map_of d x)"
proof (induction d)
  case Nil
  show ?case by simp
next
  case (Cons p d)
  obtain a b where p: "p = (a, b)" by (cases p)
  show ?case unfolding p using Cons by (cases "a = k"; cases "x = k") simp_all
qed

lemma map_of_dict_set: "map_of (dict_set k v d) = (map_of d)(k \<mapsto> v)"
proof (cases "k \<in> fst ` set d")
  case False
  then have n: "map_of d k = None" by (simp add: map_of_eq_None_iff)
  have "map_of (d @ [(k, v)]) x = ((map_of d)(k \<mapsto> v)) x" for x
    using n by (cases "x = k") (simp_all add: map_add_def split: option.splits)
  with False show ?thesis by (simp add: dict_set_def fun_eq_iff)
next
  case True
  then obtain w where w: "map_of d k = Some w"
    by (cases "map_of d k") (simp_all add: map_of_eq_None_iff)
  have "map_of (map (\<lambda>(k', v'). if k' = k then (k', v) else (k', v')) d) x =
        ((map_of d)(k \<mapsto> v)) x" for x
    by (simp add: map_of_replace w)
  with True show ?thesis by (simp add: dict_set_def fun_eq_iff)
qed

lemma keys_dict_set:
  "map fst (dict_set k v d) = (if k \<in> fst ` set d then map fst d else map fst d @ [k])"
  by (induction d) (auto simp: dict_set_def)

lemma distinct_dict_set: "distinct (map fst d) \<Longrightarrow> distinct (map fst (dict_set k v d))"
  by (simp add: keys_dict_set)

lemma store_match_fold:
  "list_all (\<lambda>m. length m = 2) ms \<Longrightarrow>
   map_of (foldl store_match d ms) = map_of (rev (map (\<lambda>m. (m ! 0, m ! 1)) ms) @ d)"
proof (induction ms arbitrary: d)
  case Nil
  then show ?case by simp
next
  case (Cons m ms)
  then obtain name version where m: "m = [name, version]"
    by (cases m; cases "tl m"; cases "tl (tl m)") auto
  have "map_of (foldl store_match (dict_set name version d) ms) =
        map_of (rev (map (\<lambda>m. (m ! 0, m ! 1)) ms) @ dict_set name version d)"
    using Cons by simp
  then show ?case
    by (simp add: m map_of_dict_set fun_eq_iff map_add_def split: option.splits)
qed

lemma store_match_distinct:
  "distinct (map fst d) \<Longrightarrow> distinct (map fst (foldl store_match d ms))"
proof (induction ms arbitrary: d)
  case Nil
  then show ?case by simp
next
  case (Cons m ms)
  have "distinct (map fst (store_match d m))"
    using Cons.prems by (cases "(d, m)" rule: store_match.cases) (simp_all add: distinct_dict_set)
  then show ?case using Cons.IH by simp
qed

text \<open>
  C6, as the code has it: for every text, npm-mode extraction returns a dict with one entry
  for each package name among the matches of the pattern, and the version of a name is the
  version text of its last match, as it was matched (a leading \<open>^\<close> or \<open>~\<close> is still there).
  The example text gives the two stated entries. The leading characters \<open>^~>=<\<close> are
  stripped by the analysis pipeline, when it turns the dict into its package list.
\<close>

theorem extract_npm_last_wins:
  "list_all (\<lambda>m. length m = 2) (findall npm_pattern text) \<and>
   distinct (map fst (extract_npm_packages text)) \<and>
   map_of (extract_npm_packages text) =
     map_of (rev (map (\<lambda>m. (m ! 0, m ! 1)) (findall npm_pattern text))) \<and>
   extract_npm_packages ''express@4.17.1, axios@0.21.1'' =
     [(''express'', ''4.17.1''), (''axios'', ''0.21.1'')] \<and>
   extract_npm_packages ''a@1 b@2 a@^3'' = [(''a'', ''^3''), (''b'', ''2'')] \<and>
   npm_dependencies (extract_npm_packages ''a@1 b@2 a@^3'') =
     [\<lparr>pd_name = ''a'', pd_version = Some ''3''\<rparr>, \<lparr>pd_name = ''b'', pd_version = Some ''2''\<rparr>]"
proof -
  have a: "extract_npm_packages ''express@4.17.1, axios@0.21.1'' =
     [(''express'', ''4.17.1''), (''axios'', ''0.21.1'')]"
    by code_simp
  have b: "extract_npm_packages ''a@1 b@2 a@^3'' = [(''a'', ''^3''), (''b'', ''2'')]"
    by code_simp
  have c: "npm_dependencies [(''a'', ''^3''), (''b'', ''2'')] =
     [\<lparr>pd_name = ''a'', pd_version = Some ''3''\<rparr>, \<lparr>pd_name = ''b'', pd_version = Some ''2''\<rparr>]"
    by (simp add: npm_dependencies_def lstrip_chars_def)
  have d: "map_of (extract_npm_packages text) =
     map_of (rev (map (\<lambda>m. (m ! 0, m ! 1)) (findall npm_pattern text)))"
    using store_match_fold [OF npm_matches_pairs, of "[]" "text"]
    by (simp add: extract_npm_packages_def)
  have e: "distinct (map fst (extract_npm_packages text))"
    by (simp add: extract_npm_packages_def store_match_distinct)
  from a b c d e npm_matches_pairs show ?thesis by simp
qed

text \<open>
  C6 as stated fails: the version that the extraction returns for \<open>react@^17.0.0\<close> still
  has its leading \<open>^\<close>.
\<close>

theorem extract_npm_cleaned_counterexample:
  "extract_npm_packages ''react@^17.0.0'' = [(''react'', ''^17.0.0'')] \<and>
   lstrip_chars ''^~>=<'' ''^17.0.0'' = ''17.0.0'' \<and>
   map_of (extract_npm_packages ''react@^17.0.0'') ''react'' \<noteq>
     Some (lstrip_chars ''^~>=<'' ''^17.0.0'')"
proof -
  have a: "extract_npm_packages ''react@^17.0.0'' = [(''react'', ''^17.0.0'')]"
    by code_simp
  show ?thesis unfolding a by (simp add: lstrip_chars_def)
qed

section \<open>Properties of the conversation store\<close>

text \<open>
  The steps of the handler, seen from the stored conversations: only \<open>extend_history\<close>
  changes what is stored, and it appends.
\<close>

lemma history_of_extend:
  "history_of (extend_history c items st) c' =
     (if c' = c then history_of st c @ items else history_of st c')"
  by (simp add: history_of_def extend_history_def map_of_dict_set)

lemma history_of_ensure: "history_of (ensure_context c st) c' = history_of st c'"
proof (cases "c \<in> fst ` set (conversation_history st)")
  case True
  then show ?thesis by (simp add: ensure_context_def)
next
  case False
  then have "map_of (conversation_history st) c = None" by (simp add: map_of_eq_None_iff)
  with False show ?thesis
    by (simp add: ensure_context_def history_of_def map_of_dict_set)
qed

lemma history_of_or_uuid4: "history_of (snd (or_uuid4 rt x st)) c = history_of st c"
  by (simp add: or_uuid4_def history_of_def split: option.splits)

lemma history_of_raw_or_uuid4: "history_of (snd (raw_or_uuid4 rt x st)) c = history_of st c"
  by (simp add: raw_or_uuid4_def history_of_def)

lemma history_of_create_artifact:
  "history_of (snd (create_artifact rt d st)) c = history_of st c"
  by (simp add: create_artifact_def history_of_def)

lemma history_of_process:
  "history_of (snd (process_user_message rt sv t st)) c = history_of st c"
  by (simp add: process_user_message_def report_python_def report_npm_def Let_def split_beta
      history_of_create_artifact)

lemma history_of_agent_reply: "history_of (snd (agent_reply rt t k st)) c = history_of st c"
  by (simp add: agent_reply_def history_of_def)

lemma history_of_completed: "history_of (snd (completed rt a st)) c = history_of st c"
  by (simp add: completed_def history_of_def)

lemmas history_steps =
  history_of_extend history_of_ensure history_of_or_uuid4 history_of_raw_or_uuid4
  history_of_process history_of_agent_reply history_of_completed

lemma role_of_agent_reply: "msg_role (fst (agent_reply rt t k st)) = Agent"
  by (simp add: agent_reply_def)

lemma fst_or_uuid4_given: "x = Some c \<Longrightarrow> c \<noteq> [] \<Longrightarrow> fst (or_uuid4 rt x st) = c"
  by (simp add: or_uuid4_def)

text \<open>The \<open>except\<close> clauses of the dispatch keep the state that the handler has reached.\<close>

lemma snd_handle_message:
  "snd (handle_message rt sv request st) =
     (if req_method request = ''message/send'' then snd (handle_message_send rt sv request st)
      else if req_method request = ''execute'' then snd (handle_execute rt sv request st)
      else st)"
  by (simp add: handle_message_def split_beta split: sum.splits py_exception.splits)

text \<open>What a message/send request and an execute request store.\<close>

lemma send_history:
  assumes "req_params request = MessageParams m extra"
  shows "\<exists>a. msg_role a = Agent \<and>
           (\<forall>k. history_of (snd (handle_message_send rt sv request st)) k =
                  (if k = KStr (codes (fst (or_uuid4 rt (taskId m) st)))
                   then history_of st k @ [Msg m, Msg a] else history_of st k))"
proof -
  let ?c = "fst (or_uuid4 rt (taskId m) st)"
  let ?s1 = "extend_history (KStr (codes ?c)) [Msg m]
               (ensure_context (KStr (codes ?c)) (snd (or_uuid4 rt (taskId m) st)))"
  let ?pr = "process_user_message rt sv (extract_text_from_message rt m) ?s1"
  let ?ar = "agent_reply rt (fst (fst ?pr)) (Some ?c) (snd ?pr)"
  have "\<forall>k. history_of (snd (handle_message_send rt sv request st)) k =
              (if k = KStr (codes ?c) then history_of st k @ [Msg m, Msg (fst ?ar)] else history_of st k)"
    using assms by (simp add: handle_message_send_def Let_def split_beta history_steps)
  moreover have "msg_role (fst ?ar) = Agent" by (rule role_of_agent_reply)
  ultimately show ?thesis by blast
qed

lemma send_unchanged:
  assumes "req_params request = ExecuteParams p extra"
  shows "snd (handle_message_send rt sv request st) = st"
  using assms by (simp add: handle_message_send_def split: option.splits)

lemma execute_history:
  assumes "req_params request = ExecuteParams p extra"
  shows "\<exists>reply. length reply = (if list_ex (\<lambda>m. msg_role m = User) (ep_messages p) then 1 else 0) \<and>
           list_all (\<lambda>m. msg_role m = Agent) reply \<and>
           (\<forall>k. history_of (snd (handle_execute rt sv request st)) k =
                  (if k = KStr (codes (fst (or_uuid4 rt (ep_contextId p) st)))
                   then history_of st k @ map Msg (ep_messages p) @ map Msg reply
                   else history_of st k))"
proof (cases "list_ex (\<lambda>m. msg_role m = User) (ep_messages p)")
  case False
  then have "filter (\<lambda>m. msg_role m = User) (ep_messages p) = []"
    by (simp add: filter_empty_conv list_ex_iff)
  then have "\<forall>k. history_of (snd (handle_execute rt sv request st)) k =
                  (if k = KStr (codes (fst (or_uuid4 rt (ep_contextId p) st)))
                   then history_of st k @ map Msg (ep_messages p) @ map Msg []
                   else history_of st k)"
    using assms by (simp add: handle_execute_def Let_def split_beta history_steps)
  with False show ?thesis by (intro exI [of _ "[]"]) simp
next
  case True
  then have ne: "filter (\<lambda>m. msg_role m = User) (ep_messages p) \<noteq> []"
    by (simp add: filter_empty_conv list_ex_iff)
  let ?c = "fst (or_uuid4 rt (ep_contextId p) st)"
  let ?s1 = "extend_history (KStr (codes ?c)) (map Msg (ep_messages p))
               (ensure_context (KStr (codes ?c)) (snd (or_uuid4 rt (ep_contextId p) st)))"
  let ?pr = "process_user_message rt sv
               (extract_text_from_message rt (last (filter (\<lambda>m. msg_role m = User) (ep_messages p))))
               ?s1"
  let ?ar = "agent_reply rt (fst (fst ?pr)) (ep_taskId p) (snd ?pr)"
  have "\<forall>k. history_of (snd (handle_execute rt sv request st)) k =
              (if k = KStr (codes ?c)
               then history_of st k @ map Msg (ep_messages p) @ map Msg [fst ?ar]
               else history_of st k)"
    using assms ne by (simp add: handle_execute_def Let_def split_beta history_steps)
  with True show ?thesis
    by (intro exI [of _ "[fst ?ar]"]) (simp add: role_of_agent_reply)
qed

lemma execute_extra_grows:
  "prefix (history_of st k) (history_of (snd (handle_execute_extra rt request extra st)) k)"
  by (simp add: handle_execute_extra_def Let_def split_beta history_steps
      split: option.splits list.splits)

lemma handle_message_grows:
  "prefix (history_of st k) (history_of (snd (handle_message rt sv request st)) k)"
proof (cases "req_params request")
  case (MessageParams m extra)
  from send_history [OF MessageParams, of rt sv st]
  have "prefix (history_of st k) (history_of (snd (handle_message_send rt sv request st)) k)"
    by auto
  moreover have "prefix (history_of st k) (history_of (snd (handle_execute rt sv request st)) k)"
    by (simp add: handle_execute_def MessageParams execute_extra_grows)
  ultimately show ?thesis by (simp add: snd_handle_message)
next
  case (ExecuteParams p extra)
  from execute_history [OF ExecuteParams, of rt sv st]
  have "prefix (history_of st k) (history_of (snd (handle_execute rt sv request st)) k)"
    by auto
  then show ?thesis by (simp add: snd_handle_message send_unchanged [OF ExecuteParams])
qed

text \<open>
  C7, as the code has it: whatever the request, the conversation stored under a key after
  the handler has run starts with the conversation stored before. Two consecutive execute
  calls whose params were read as execute params, with the same non-empty context id,
  leave under that id the conversation stored before, then the inbound messages of the
  first call and its agent message, then those of the second call; a call has one agent
  message when its messages include one of role user, and none otherwise.
\<close>

theorem conversation_only_grows:
  "prefix (history_of st k) (history_of (snd (handle_message rt sv request st)) k) \<and>
   (req_method r1 = ''execute'' \<longrightarrow> req_params r1 = ExecuteParams p1 x1 \<longrightarrow>
    ep_contextId p1 = Some c \<longrightarrow>
    req_method r2 = ''execute'' \<longrightarrow> req_params r2 = ExecuteParams p2 x2 \<longrightarrow>
    ep_contextId p2 = Some c \<longrightarrow> c \<noteq> [] \<longrightarrow>
    (\<exists>reply1 reply2.
       history_of (snd (handle_message rt sv r2 (snd (handle_message rt sv r1 st)))) (KStr (codes c)) =
         history_of st (KStr (codes c)) @
         map Msg (ep_messages p1) @ map Msg reply1 @
         map Msg (ep_messages p2) @ map Msg reply2 \<and>
       length reply1 = (if list_ex (\<lambda>m. msg_role m = User) (ep_messages p1) then 1 else 0) \<and>
       length reply2 = (if list_ex (\<lambda>m. msg_role m = User) (ep_messages p2) then 1 else 0) \<and>
       list_all (\<lambda>m. msg_role m = Agent) (reply1 @ reply2)))"
proof (intro conjI impI)
  show "prefix (history_of st k) (history_of (snd (handle_message rt sv request st)) k)"
    by (rule handle_message_grows)
next
  assume m1: "req_method r1 = ''execute''" and p1: "req_params r1 = ExecuteParams p1 x1"
    and c1: "ep_contextId p1 = Some c"
    and m2: "req_method r2 = ''execute''" and p2: "req_params r2 = ExecuteParams p2 x2"
    and c2: "ep_contextId p2 = Some c" and c: "c \<noteq> []"
  let ?st1 = "snd (handle_message rt sv r1 st)"
  let ?st2 = "snd (handle_message rt sv r2 ?st1)"
  from execute_history [OF p1, of rt sv st] obtain reply1 where
    l1: "length reply1 = (if list_ex (\<lambda>m. msg_role m = User) (ep_messages p1) then 1 else 0)"
    and a1: "list_all (\<lambda>m. msg_role m = Agent) reply1"
    and h1: "history_of ?st1 (KStr (codes c)) =
               history_of st (KStr (codes c)) @ map Msg (ep_messages p1) @ map Msg reply1"
    by (auto simp: snd_handle_message m1 fst_or_uuid4_given [OF c1 c])
  from execute_history [OF p2, of rt sv ?st1] obtain reply2 where
    l2: "length reply2 = (if list_ex (\<lambda>m. msg_role m = User) (ep_messages p2) then 1 else 0)"
    and a2: "list_all (\<lambda>m. msg_role m = Agent) reply2"
    and h2: "history_of ?st2 (KStr (codes c)) =
               history_of ?st1 (KStr (codes c)) @ map Msg (ep_messages p2) @ map Msg reply2"
    by (auto simp: snd_handle_message m2 fst_or_uuid4_given [OF c2 c])
  from h1 h2 l1 l2 a1 a2 show
    "\<exists>reply1 reply2.
       history_of ?st2 (KStr (codes c)) =
         history_of st (KStr (codes c)) @
         map Msg (ep_messages p1) @ map Msg reply1 @
         map Msg (ep_messages p2) @ map Msg reply2 \<and>
       length reply1 = (if list_ex (\<lambda>m. msg_role m = User) (ep_messages p1) then 1 else 0) \<and>
       length reply2 = (if list_ex (\<lambda>m. msg_role m = User) (ep_messages p2) then 1 else 0) \<and>
       list_all (\<lambda>m. msg_role m = Agent) (reply1 @ reply2)"
    by (intro exI [of _ reply1] exI [of _ reply2]) simp
qed

text \<open>
  Two execute calls on the context \<open>ctx\<close>, the first with one user message, the second with
  a system and a user message: five messages are stored.
\<close>

theorem conversation_only_grows_witness:
  "req_method (execute_request (Some ''ctx'') [text_message User ''help'' None]) = ''execute'' \<and>
   ''ctx'' \<noteq> [] \<and>
   length (history_of
     (snd (handle_message sample_runtime sample_services
        (execute_request (Some ''ctx'')
           [text_message System ''be brief'' None, text_message User ''help'' None])
        (snd (handle_message sample_runtime sample_services
           (execute_request (Some ''ctx'') [text_message User ''help'' None]) empty_state))))
     (KStr (codes ''ctx''))) = 5"
proof -
  let ?p1 = "\<lparr>ep_contextId = Some ''ctx'', ep_taskId = None,
              ep_messages = [text_message User ''help'' None]\<rparr>"
  let ?p2 = "\<lparr>ep_contextId = Some ''ctx'', ep_taskId = None,
              ep_messages = [text_message System ''be brief'' None,
                             text_message User ''help'' None]\<rparr>"
  let ?r1 = "execute_request (Some ''ctx'') [text_message User ''help'' None]"
  let ?r2 = "execute_request (Some ''ctx'')
               [text_message System ''be brief'' None, text_message User ''help'' None]"
  have m: "req_method ?r1 = ''execute''" "req_method ?r2 = ''execute''"
    by (simp_all add: execute_request_def)
  have p: "req_params ?r1 = ExecuteParams ?p1 []" "req_params ?r2 = ExecuteParams ?p2 []"
    by (simp_all add: execute_request_def)
  have u: "list_ex (\<lambda>m. msg_role m = User) (ep_messages ?p1)"
    "list_ex (\<lambda>m. msg_role m = User) (ep_messages ?p2)"
    by (simp_all add: text_message_def)
  have h0: "history_of empty_state (KStr (codes ''ctx'')) = []"
    by (simp add: history_of_def empty_state_def)
  from conversation_only_grows [of empty_state "KStr (codes ''ctx'')" sample_runtime sample_services
      ?r1 ?r1 ?p1 "[]" "''ctx''" ?r2 ?p2 "[]"] m p
  obtain reply1 reply2 where
    "history_of
       (snd (handle_message sample_runtime sample_services ?r2
          (snd (handle_message sample_runtime sample_services ?r1 empty_state))))
       (KStr (codes ''ctx'')) =
     history_of empty_state (KStr (codes ''ctx'')) @ map Msg (ep_messages ?p1) @ map Msg reply1 @
       map Msg (ep_messages ?p2) @ map Msg reply2"
    and "length reply1 = (if list_ex (\<lambda>m. msg_role m = User) (ep_messages ?p1) then 1 else 0)"
    and "length reply2 = (if list_ex (\<lambda>m. msg_role m = User) (ep_messages ?p2) then 1 else 0)"
    by auto
  with u h0 have "length (history_of
       (snd (handle_message sample_runtime sample_services ?r2
          (snd (handle_message sample_runtime sample_services ?r1 empty_state))))
       (KStr (codes ''ctx''))) = 5"
    by simp
  with m show ?thesis by simp
qed

text \<open>
  C7 as stated fails, on the context \<open>ctx\<close> after a first execute call with one user
  message. When the second call has no user message, it appends its inbound message and no
  agent message. When the params of the second call were read as message params, with the
  context id and a user message among the extra members, the call appends the raw message
  and no agent message. Three items are stored each time, not four.
\<close>

theorem conversation_count_counterexample:
  "length (history_of
     (snd (handle_message sample_runtime sample_services
        (execute_request (Some ''ctx'') [text_message Agent ''noted'' None])
        (snd (handle_message sample_runtime sample_services
           (execute_request (Some ''ctx'') [text_message User ''help'' None]) empty_state))))
     (KStr (codes ''ctx''))) = 3 \<and>
   length (history_of
     (snd (handle_message sample_runtime sample_services
        (execute_request_extra (text_message User ''help'' None)
           [(codes ''contextId'', JStr (codes ''ctx'')),
            (codes ''messages'', JArr [raw_message ''user''])])
        (snd (handle_message sample_runtime sample_services
           (execute_request (Some ''ctx'') [text_message User ''help'' None]) empty_state))))
     (KStr (codes ''ctx''))) = 3 \<and>
   (3::nat) \<noteq> (length [text_message User ''help'' None] + 1) +
                (length [text_message Agent ''noted'' None] + 1)"
proof -
  let ?p1 = "\<lparr>ep_contextId = Some ''ctx'', ep_taskId = None,
              ep_messages = [text_message User ''help'' None]\<rparr>"
  let ?p2 = "\<lparr>ep_contextId = Some ''ctx'', ep_taskId = None,
              ep_messages = [text_message Agent ''noted'' None]\<rparr>"
  let ?r1 = "execute_request (Some ''ctx'') [text_message User ''help'' None]"
  let ?r2 = "execute_request (Some ''ctx'') [text_message Agent ''noted'' None]"
  let ?r3 = "execute_request_extra (text_message User ''help'' None)
               [(codes ''contextId'', JStr (codes ''ctx'')),
            (codes ''messages'', JArr [raw_message ''user''])]"
  let ?st1 = "snd (handle_message sample_runtime sample_services ?r1 empty_state)"
  have m: "req_method ?r1 = ''execute''" "req_method ?r2 = ''execute''"
    "req_method ?r3 = ''execute''"
    by (simp_all add: execute_request_def execute_request_extra_def)
  have p1: "req_params ?r1 = ExecuteParams ?p1 []" and p2: "req_params ?r2 = ExecuteParams ?p2 []"
    by (simp_all add: execute_request_def)
  have c: "fst (or_uuid4 sample_runtime (Some ''ctx'') st) = ''ctx''" for st
    by (simp add: or_uuid4_def)
  have h0: "history_of empty_state (KStr (codes ''ctx'')) = []"
    by (simp add: history_of_def empty_state_def)
  have u: "list_ex (\<lambda>m. msg_role m = User) (ep_messages ?p1)"
    "\<not> list_ex (\<lambda>m. msg_role m = User) (ep_messages ?p2)"
    by (simp_all add: text_message_def)
  from execute_history [OF p1, of sample_runtime sample_services empty_state]
  obtain reply1 where "length reply1 =
      (if list_ex (\<lambda>m. msg_role m = User) (ep_messages ?p1) then 1 else 0)"
    and "history_of (snd (handle_execute sample_runtime sample_services ?r1 empty_state))
           (KStr (codes ''ctx'')) =
         history_of empty_state (KStr (codes ''ctx'')) @ map Msg (ep_messages ?p1) @ map Msg reply1"
    by (auto simp: c)
  with u(1) h0 have l1: "length (history_of ?st1 (KStr (codes ''ctx''))) = 2"
    by (simp add: snd_handle_message m)
  from execute_history [OF p2, of sample_runtime sample_services ?st1]
  obtain reply2 where "length reply2 =
      (if list_ex (\<lambda>m. msg_role m = User) (ep_messages ?p2) then 1 else 0)"
    and "history_of (snd (handle_execute sample_runtime sample_services ?r2 ?st1))
           (KStr (codes ''ctx'')) =
         history_of ?st1 (KStr (codes ''ctx'')) @ map Msg (ep_messages ?p2) @ map Msg reply2"
    by (auto simp: c)
  with u(2) l1 have l2: "length (history_of
      (snd (handle_message sample_runtime sample_services ?r2 ?st1)) (KStr (codes ''ctx''))) = 3"
    by (simp add: snd_handle_message m)
  have "history_of (snd (handle_message sample_runtime sample_services ?r3 ?st1)) (KStr (codes ''ctx'')) =
        history_of ?st1 (KStr (codes ''ctx'')) @ [Raw (raw_message ''user'')]"
    by (simp add: snd_handle_message m handle_execute_def execute_request_extra_def
        handle_execute_extra_def raw_or_uuid4_def Let_def history_steps raw_message_def
        dict_get_def)
  with l1 l2 show ?thesis by simp
qed




section \<open>Properties of the identifiers of a message/send result\<close>

text \<open>How many identifiers each step of the handler draws.\<close>

lemma uuid_calls_extend: "uuid_calls (extend_history c msgs st) = uuid_calls st"
  by (simp add: extend_history_def)

lemma uuid_calls_ensure: "uuid_calls (ensure_context c st) = uuid_calls st"
  by (simp add: ensure_context_def)

lemma uuid_calls_or_uuid4:
  "uuid_calls (snd (or_uuid4 rt x st)) =
     (if truthy_str x then uuid_calls st else Suc (uuid_calls st))"
  by (simp add: or_uuid4_def truthy_str_def split: option.splits)

lemma fst_or_uuid4:
  "fst (or_uuid4 rt x st) =
     (if truthy_str x then (case x of Some t \<Rightarrow> t | None \<Rightarrow> []) else uuid4 rt (uuid_calls st))"
  by (simp add: or_uuid4_def truthy_str_def split: option.splits)

lemma uuid_calls_process:
  "uuid_calls (snd (process_user_message rt sv t st)) =
     uuid_calls st + length (snd (fst (process_user_message rt sv t st)))"
  by (simp add: process_user_message_def report_python_def report_npm_def Let_def split_beta
      create_artifact_def)

lemma uuid_calls_agent_reply: "uuid_calls (snd (agent_reply rt t k st)) = Suc (uuid_calls st)"
  by (simp add: agent_reply_def)

lemmas uuid_steps =
  uuid_calls_extend uuid_calls_ensure uuid_calls_or_uuid4 uuid_calls_process
  uuid_calls_agent_reply

text \<open>The items of a conversation that a task result refuses.\<close>

lemma invalid_items_append:
  "invalid_items rt (xs @ ys) = invalid_items rt xs @ invalid_items rt ys"
  by (induction rt xs rule: invalid_items.induct) (simp_all split: option.splits)

lemma task_response_result:
  "(case task_response rt i r c s a items of
      Inl e \<Rightarrow> invalid_items rt items \<noteq> [] \<and> (\<exists>t. e = OtherException t)
    | Inr response \<Rightarrow>
        invalid_items rt items = [] \<and> resp_error response = None \<and>
        (\<exists>t. resp_result response = Some t \<and> tr_id t = r \<and> tr_contextId t = c \<and>
             tr_artifacts t = a))"
  by (simp add: task_response_def)

text \<open>
  C9, as the code has it. When the params of a message/send request were read as message
  params, a task result is returned exactly when the conversation stored under the
  context id holds no item that the task result refuses, and then: when the message
  carries a non-empty taskId, the context id and the id of the result are that taskId;
  when the taskId is absent or empty, the context id is the identifier drawn first and
  the id of the result is an identifier drawn later, after those of the agent message and
  of the artifacts, so the two are separate draws. When the params were read as execute
  params, the request is answered with the error -32602, with no result, and nothing is
  stored. With the sample identifiers the two draws differ.
\<close>

theorem message_send_ids:
  assumes "req_method request = ''message/send''"
  shows "(case req_params request of
            MessageParams m extra \<Rightarrow>
              ((\<exists>r. resp_result (fst (handle_message rt sv request st)) = Some r) \<longleftrightarrow>
                 invalid_items rt (history_of st (KStr (codes (fst (or_uuid4 rt (taskId m) st))))) = []) \<and>
              (\<forall>r. resp_result (fst (handle_message rt sv request st)) = Some r \<longrightarrow>
                 tr_contextId r = fst (or_uuid4 rt (taskId m) st) \<and>
                 (truthy_str (taskId m) \<longrightarrow>
                    taskId m = Some (tr_id r) \<and> tr_contextId r = tr_id r) \<and>
                 (\<not> truthy_str (taskId m) \<longrightarrow>
                    tr_contextId r = uuid4 rt (uuid_calls st) \<and>
                    tr_id r = uuid4 rt (uuid_calls st + 2 + length (tr_artifacts r))))
          | ExecuteParams p extra \<Rightarrow>
              resp_result (fst (handle_message rt sv request st)) = None \<and>
              (\<exists>e. resp_error (fst (handle_message rt sv request st)) = Some (- 32602, e)) \<and>
              snd (handle_message rt sv request st) = st) \<and>
         (case resp_result (fst (handle_message sample_runtime sample_services
              (send_request (text_message User ''help'' None)) empty_state)) of
           None \<Rightarrow> False
         | Some r \<Rightarrow> tr_contextId r = ''uuid-0'' \<and> tr_id r = ''uuid-2'' \<and>
                     tr_id r \<noteq> tr_contextId r)"
proof
  show "case req_params request of
          MessageParams m extra \<Rightarrow>
            ((\<exists>r. resp_result (fst (handle_message rt sv request st)) = Some r) \<longleftrightarrow>
               invalid_items rt (history_of st (KStr (codes (fst (or_uuid4 rt (taskId m) st))))) = []) \<and>
            (\<forall>r. resp_result (fst (handle_message rt sv request st)) = Some r \<longrightarrow>
               tr_contextId r = fst (or_uuid4 rt (taskId m) st) \<and>
               (truthy_str (taskId m) \<longrightarrow>
                  taskId m = Some (tr_id r) \<and> tr_contextId r = tr_id r) \<and>
               (\<not> truthy_str (taskId m) \<longrightarrow>
                  tr_contextId r = uuid4 rt (uuid_calls st) \<and>
                  tr_id r = uuid4 rt (uuid_calls st + 2 + length (tr_artifacts r))))
        | ExecuteParams p extra \<Rightarrow>
            resp_result (fst (handle_message rt sv request st)) = None \<and>
            (\<exists>e. resp_error (fst (handle_message rt sv request st)) = Some (- 32602, e)) \<and>
            snd (handle_message rt sv request st) = st"
  proof (cases "req_params request")
    case (ExecuteParams p extra)
    with assms show ?thesis
      by (simp add: handle_message_def handle_message_send_def error_response_def
          split: option.splits)
  next
    case (MessageParams m extra)
    let ?c = "fst (or_uuid4 rt (taskId m) st)"
    let ?s1 = "extend_history (KStr (codes ?c)) [Msg m]
                 (ensure_context (KStr (codes ?c)) (snd (or_uuid4 rt (taskId m) st)))"
    let ?p = "process_user_message rt sv (extract_text_from_message rt m) ?s1"
    let ?a = "agent_reply rt (fst (fst ?p)) (Some ?c) (snd ?p)"
    let ?s2 = "extend_history (KStr (codes ?c)) [Msg (fst ?a)] (snd ?a)"
    let ?i = "fst (or_uuid4 rt (taskId m) ?s2)"
    let ?s3 = "snd (or_uuid4 rt (taskId m) ?s2)"
    let ?f = "completed rt (fst ?a) ?s3"
    let ?t = "task_response rt (req_id request) ?i ?c (fst ?f) (snd (fst ?p))
                (history_of (snd ?f) (KStr (codes ?c)))"
    have s: "fst (handle_message_send rt sv request st) = ?t"
      using MessageParams by (simp add: handle_message_send_def Let_def split_beta)
    have h: "invalid_items rt (history_of (snd ?f) (KStr (codes ?c))) =
             invalid_items rt (history_of st (KStr (codes ?c)))"
      by (simp add: history_steps invalid_items_append)
    have i: "?i = (if truthy_str (taskId m) then (case taskId m of Some t \<Rightarrow> t | None \<Rightarrow> [])
                   else uuid4 rt (uuid_calls st + 2 + length (snd (fst ?p))))"
      by (simp add: fst_or_uuid4 uuid_steps)
    have c: "?c = (if truthy_str (taskId m) then (case taskId m of Some t \<Rightarrow> t | None \<Rightarrow> [])
                   else uuid4 rt (uuid_calls st))"
      by (simp add: fst_or_uuid4)
    have m: "fst (handle_message rt sv request st) =
             (case ?t of Inr response \<Rightarrow> response
              | Inl (AttributeError e) \<Rightarrow>
                  error_response (req_id request) (- 32602) (''Invalid params: '' @ e)
              | Inl (OtherException e) \<Rightarrow>
                  error_response (req_id request) (- 32603) (''Internal error: '' @ e))"
      using assms s [symmetric]
      by (simp add: handle_message_def split_beta split: sum.splits py_exception.splits)
    from task_response_result [where rt = rt and i = "req_id request" and r = ?i and c = ?c
        and s = "fst ?f" and a = "snd (fst ?p)" and items = "history_of (snd ?f) (KStr (codes ?c))"]
    have "((\<exists>r. resp_result (fst (handle_message rt sv request st)) = Some r) \<longleftrightarrow>
             invalid_items rt (history_of st (KStr (codes ?c))) = []) \<and>
          (\<forall>r. resp_result (fst (handle_message rt sv request st)) = Some r \<longrightarrow>
             tr_contextId r = ?c \<and> tr_id r = ?i \<and> tr_artifacts r = snd (fst ?p))"
      unfolding m h
      by (cases ?t) (auto simp: error_response_def split: py_exception.splits)
    with MessageParams i c show ?thesis
      by (cases "taskId m") (auto simp: truthy_str_def)
  qed
  have p: "process_user_message rt sv ''help'' st = ((get_help_message, []), st)" for rt sv st
    by (simp add: process_user_message_def lower_def lower_char_def startswith_def)
  have d: "str_nat 0 = ''0''" "str_nat (Suc 0) = ''1''" "str_nat (Suc (Suc 0)) = ''2''"
    by code_simp+
  show "case resp_result (fst (handle_message sample_runtime sample_services
              (send_request (text_message User ''help'' None)) empty_state)) of
           None \<Rightarrow> False
         | Some r \<Rightarrow> tr_contextId r = ''uuid-0'' \<and> tr_id r = ''uuid-2'' \<and>
                     tr_id r \<noteq> tr_contextId r"
    by (simp add: handle_message_def handle_message_send_def Let_def split_beta send_request_def
        text_message_def extract_text_from_message_def part_content_def truthy_str_def
        or_uuid4_def ensure_context_def extend_history_def agent_reply_def completed_def
        empty_state_def sample_runtime_def task_response_def history_of_def dict_set_def p d)
qed

text \<open>
  A message with the task id \<open>t1\<close>: the result and its context carry that id. A message
  with no task id, in the state where no identifier was drawn yet: the context id is the
  first identifier, the id of the result a later one.
\<close>

theorem message_send_ids_witness:
  "req_method (send_request (text_message User ''help'' (Some ''t1''))) = ''message/send'' \<and>
   truthy_str (Some ''t1'') \<and> \<not> truthy_str None \<and>
   (\<exists>r. resp_result (fst (handle_message sample_runtime sample_services
           (send_request (text_message User ''help'' (Some ''t1''))) empty_state)) = Some r \<and>
        tr_id r = ''t1'' \<and> tr_contextId r = ''t1'') \<and>
   (\<exists>r. resp_result (fst (handle_message sample_runtime sample_services
           (send_request (text_message User ''help'' None)) empty_state)) = Some r \<and>
        tr_contextId r = uuid4 sample_runtime 0 \<and>
        tr_id r = uuid4 sample_runtime (2 + length (tr_artifacts r)))"
proof -
  have a: "req_method (send_request msg) = ''message/send''"
    and b: "req_params (send_request msg) = MessageParams msg []" for msg
    by (simp_all add: send_request_def)
  have t: "taskId (text_message User ''help'' k) = k" for k
    by (simp add: text_message_def)
  have u: "uuid_calls empty_state = 0"
    by (simp add: empty_state_def)
  have h: "history_of empty_state k = []" for k
    by (simp add: history_of_def empty_state_def)
  from message_send_ids [OF a [of "text_message User ''help'' (Some ''t1'')"],
      of sample_runtime sample_services empty_state]
  have one: "\<exists>r. resp_result (fst (handle_message sample_runtime sample_services
           (send_request (text_message User ''help'' (Some ''t1''))) empty_state)) = Some r \<and>
        tr_id r = ''t1'' \<and> tr_contextId r = ''t1''"
    by (auto simp: b t h truthy_str_def)
  from message_send_ids [OF a [of "text_message User ''help'' None"],
      of sample_runtime sample_services empty_state]
  have two: "\<exists>r. resp_result (fst (handle_message sample_runtime sample_services
           (send_request (text_message User ''help'' None)) empty_state)) = Some r \<and>
        tr_contextId r = uuid4 sample_runtime 0 \<and>
        tr_id r = uuid4 sample_runtime (2 + length (tr_artifacts r))"
    by (auto simp: b t u h truthy_str_def)
  from a one two show ?thesis by (simp add: truthy_str_def)
qed

text \<open>
  C9 as stated fails: a message that carries the empty taskId. The empty string is a valid
  taskId, and it is falsy, so both identifiers are drawn: the context id is \<open>uuid-0\<close> and
  the id of the result is \<open>uuid-2\<close>, and neither is the taskId.
\<close>

theorem message_send_ids_counterexample:
  "taskId (text_message User ''help'' (Some '''')) = Some '''' \<and>
   map_option tr_contextId
     (resp_result (fst (handle_message sample_runtime sample_services
        (send_request (text_message User ''help'' (Some ''''))) empty_state))) =
     Some ''uuid-0'' \<and>
   map_option tr_id
     (resp_result (fst (handle_message sample_runtime sample_services
        (send_request (text_message User ''help'' (Some ''''))) empty_state))) =
     Some ''uuid-2'' \<and>
   ''uuid-0'' \<noteq> '''' \<and> ''uuid-2'' \<noteq> ''''"
proof -
  have p: "process_user_message rt sv ''help'' st = ((get_help_message, []), st)" for rt sv st
    by (simp add: process_user_message_def lower_def lower_char_def startswith_def)
  have d: "str_nat 0 = ''0''" "str_nat (Suc 0) = ''1''" "str_nat (Suc (Suc 0)) = ''2''"
    by code_simp+
  show ?thesis
    by (simp add: handle_message_def handle_message_send_def Let_def split_beta send_request_def
        text_message_def extract_text_from_message_def part_content_def truthy_str_def
        or_uuid4_def ensure_context_def extend_history_def agent_reply_def completed_def
        empty_state_def sample_runtime_def task_response_def history_of_def dict_set_def p d)
qed

end
